theory Spec2Isabelle
  imports Main "HOL-Library.Word"
begin

unbundle bit_operations_syntax

section \<open>Stepper motor driver (xdrv_23_stepper.ino)\<close>

text \<open>
  The repository holds three revisions of the driver.  The file
  \<^verbatim>\<open>sonoff/xdrv_23_stepper.ino\<close> (timer interrupt, 32-bit positions) is modelled in
  full; its definitions carry the source's names.  Of the revision with persistent
  settings (\<^verbatim>\<open>unnamed/part_000\<close>, names ending in \<open>_p0\<close>) and of the revision polled from
  the main loop (\<^verbatim>\<open>unnamed/part_001\<close>, \<open>StepperTick\<close> and names ending in \<open>_p1\<close>) the
  functions the properties below are about are modelled.
\<close>

subsection \<open>C library functions used by the command parsers\<close>

text \<open>\<^verbatim>\<open>buffer[buffer_length] = '\0'\<close>: the C string held by the mailbox data.\<close>

definition cstring :: "string \<Rightarrow> string" where
  "cstring data = takeWhile (\<lambda>c. c \<noteq> CHR 0x00) data"

text \<open>\<^verbatim>\<open>isspace\<close> in the C locale: space, \<^verbatim>\<open>\t \n \v \f \r\<close>.\<close>

definition isspace :: "char \<Rightarrow> bool" where
  "isspace c = (let n = (of_char c :: nat) in n = 32 \<or> (9 \<le> n \<and> n \<le> 13))"

text \<open>
  \<^verbatim>\<open>strtok_r(s, ",", &tok)\<close> with a single delimiter: skips leading delimiters, returns
  \<open>None\<close> (NULL) at the end of the string, otherwise the token and the save pointer
  behind the delimiter that ended it.
\<close>

definition strtok_r :: "string \<Rightarrow> char \<Rightarrow> (string \<times> string) option" where
  "strtok_r s d =
     (let s1 = dropWhile (\<lambda>c. c = d) s
      in if s1 = [] then None
         else Some (takeWhile (\<lambda>c. c \<noteq> d) s1, drop 1 (dropWhile (\<lambda>c. c \<noteq> d) s1)))"

definition digit_of :: "char \<Rightarrow> int option" where
  "digit_of c =
     (let n = (of_char c :: int)
      in if 48 \<le> n \<and> n \<le> 57 then Some (n - 48)
         else if 97 \<le> n \<and> n \<le> 122 then Some (n - 87)
         else if 65 \<le> n \<and> n \<le> 90 then Some (n - 55)
         else None)"

definition is_digit :: "int \<Rightarrow> char \<Rightarrow> bool" where
  "is_digit base c = (case digit_of c of None \<Rightarrow> False | Some v \<Rightarrow> v < base)"

definition digits_value :: "int \<Rightarrow> string \<Rightarrow> int" where
  "digits_value base ds = foldl (\<lambda>acc c. acc * base + the (digit_of c)) 0 ds"

text \<open>
  \<^verbatim>\<open>strtol(str, &p, 0)\<close> for a 32-bit \<^verbatim>\<open>long\<close>: optional white space and sign, base 16
  after \<^verbatim>\<open>0x\<close>, base 8 after \<^verbatim>\<open>0\<close>, base 10 otherwise; the result saturates at
  \<^verbatim>\<open>LONG_MIN\<close> and \<^verbatim>\<open>LONG_MAX\<close>.  The second component is \<open>p \<noteq> str\<close>: without a digit
  nothing is converted, the value is 0 and \<open>p = str\<close>.
\<close>

definition strtol :: "string \<Rightarrow> int \<times> bool" where
  "strtol str =
     (let s1 = dropWhile isspace str;
          neg = (s1 \<noteq> [] \<and> hd s1 = CHR ''-'');
          s2 = (if s1 \<noteq> [] \<and> (hd s1 = CHR ''-'' \<or> hd s1 = CHR ''+'') then tl s1 else s1);
          hex = (2 < length s2 \<and> hd s2 = CHR ''0'' \<and> (s2 ! 1 = CHR ''x'' \<or> s2 ! 1 = CHR ''X'')
                   \<and> is_digit 16 (s2 ! 2));
          base = (if hex then 16 else if s2 \<noteq> [] \<and> hd s2 = CHR ''0'' then 8 else 10);
          s3 = (if hex then drop 2 s2 else s2);
          ds = takeWhile (is_digit base) s3;
          v = digits_value base ds
      in if ds = [] then (0, False)
         else (if neg then max (- (2 ^ 31)) (- v) else min (2 ^ 31 - 1) v, True))"

subsection \<open>Phases and control schemes\<close>

record stepper_state_t =
  A_pos :: bool
  B_pos :: bool
  A_neg :: bool
  B_neg :: bool
  A_ena :: bool
  B_ena :: bool

text \<open>An initialiser \<^verbatim>\<open>{a,b,c,d, e,f}\<close> of the six one-bit fields, in declaration order.\<close>

definition phase :: "nat \<Rightarrow> nat \<Rightarrow> nat \<Rightarrow> nat \<Rightarrow> nat \<Rightarrow> nat \<Rightarrow> stepper_state_t" where
  "phase a b c d e f =
     \<lparr>A_pos = (a = 1), B_pos = (b = 1), A_neg = (c = 1), B_neg = (d = 1),
      A_ena = (e = 1), B_ena = (f = 1)\<rparr>"

definition all_off :: stepper_state_t where
  "all_off = phase 0 0 0 0 0 0"

definition rotating_wave :: "stepper_state_t list" where
  "rotating_wave =
     [phase 1 0 0 0 1 1,
      phase 0 1 0 0 1 1,
      phase 0 0 1 0 1 1,
      phase 0 0 0 1 1 1]"

definition full_step :: "stepper_state_t list" where
  "full_step =
     [phase 1 0 0 1 1 1,
      phase 1 1 0 0 1 1,
      phase 0 1 1 0 1 1,
      phase 0 0 1 1 1 1]"

definition half_step :: "stepper_state_t list" where
  "half_step =
     [phase 1 0 0 1 1 1,
      phase 1 0 0 0 1 1,
      phase 1 1 0 0 1 1,
      phase 0 1 0 0 1 1,
      phase 0 1 1 0 1 1,
      phase 0 0 1 0 1 1,
      phase 0 0 1 1 1 1,
      phase 0 0 0 1 1 1]"

definition half_step_inhibit :: "stepper_state_t list" where
  "half_step_inhibit =
     [phase 1 0 0 1 1 1,
      phase 1 0 0 1 1 0,
      phase 1 1 0 0 1 1,
      phase 1 1 0 0 0 1,
      phase 0 1 1 0 1 1,
      phase 0 1 1 0 1 0,
      phase 0 0 1 1 1 1,
      phase 0 0 1 1 0 1]"

subsection \<open>Output pins\<close>

text \<open>The six pin globals, and a \<^verbatim>\<open>digitalWrite(pin, value)\<close> as a pair.\<close>

record pin_map =
  stepper_A_ena_pin :: "8 word"
  stepper_A_pos_pin :: "8 word"
  stepper_A_neg_pin :: "8 word"
  stepper_B_ena_pin :: "8 word"
  stepper_B_pos_pin :: "8 word"
  stepper_B_neg_pin :: "8 word"

type_synonym digitalWrite = "8 word \<times> bool"

text \<open>
  \<^verbatim>\<open>StepperSet\<close>, the same text in the three revisions: the writes it performs, in
  program order, given \<^verbatim>\<open>have_enable_pins\<close> and the pin globals.
\<close>

definition StepperSet :: "bool \<Rightarrow> pin_map \<Rightarrow> stepper_state_t \<Rightarrow> digitalWrite list" where
  "StepperSet have_ena pn st =
     (if have_ena
      then (if \<not> A_ena st then [(stepper_A_ena_pin pn, False)] else []) @
           (if \<not> B_ena st then [(stepper_B_ena_pin pn, False)] else [])
      else []) @
     [(stepper_A_pos_pin pn, A_pos st),
      (stepper_A_neg_pin pn, A_neg st),
      (stepper_B_pos_pin pn, B_pos st),
      (stepper_B_neg_pin pn, B_neg st)] @
     (if have_ena
      then (if A_ena st then [(stepper_A_ena_pin pn, True)] else []) @
           (if B_ena st then [(stepper_B_ena_pin pn, True)] else [])
      else [])"

subsection \<open>State\<close>

text \<open>
  The globals of the driver, the two timer registers it programs (\<open>T1L\<close>, \<open>T1I\<close>), bit
  \<^verbatim>\<open>TEIE1\<close> of the interrupt enable register \<^verbatim>\<open>TEIE\<close> (\<open>TEIE1_on\<close>; the other bits of
  \<^verbatim>\<open>TEIE\<close> are not modelled), and the sequence of \<^verbatim>\<open>digitalWrite\<close> calls made so far
  (\<open>gpio\<close>, oldest first).  The positions are \<^verbatim>\<open>int32_t\<close> and the tick period
  \<^verbatim>\<open>unsigned long\<close> in sonoff/xdrv_23_stepper.ino and in part_001, \<^verbatim>\<open>int16_t\<close> and
  \<^verbatim>\<open>uint16_t\<close> in part_000: the record has their widths \<open>'p\<close> and \<open>'t\<close> as parameters.
  In part_000 \<open>current_scheme\<close> and \<open>max_phase\<close> are the fields \<^verbatim>\<open>phases\<close> and
  \<^verbatim>\<open>max_phase\<close> (there a \<^verbatim>\<open>uint8_t\<close>) of the global struct \<^verbatim>\<open>current_scheme\<close>, and only
  that revision uses \<open>current_scheme_index\<close> and the firmware's persistent
  \<^verbatim>\<open>Settings\<close>, of which it reuses \<^verbatim>\<open>pwm_frequency\<close> and the slots of \<^verbatim>\<open>pwm_value\<close>
  (16-bit slots; their declaration is not part of the sources).
\<close>

record (overloaded) ('p, 't) stepper =
  tick_us :: "'t word"
  pins :: pin_map
  enabled :: bool
  have_enable_pins :: bool
  current_scheme :: "stepper_state_t list"
  current_phase :: "8 word"
  max_phase :: "8 word"
  current_pos :: "'p word"
  wanted_pos :: "'p word"
  idle :: bool
  lock_when_done :: bool
  current_scheme_index :: "8 word"
  Settings_pwm_frequency :: "16 word"
  Settings_pwm_value :: "nat \<Rightarrow> 16 word"
  TEIE1_on :: bool
  T1L :: "32 word"
  T1I :: "32 word"
  gpio :: "digitalWrite list"

type_synonym stepper32 = "(32, 32) stepper"
type_synonym stepper16 = "(16, 16) stepper"

datatype response = Done | Error

text \<open>\<^verbatim>\<open>StepperSet(st)\<close> run on the state: its writes are appended to the log.\<close>

definition apply_phase :: "stepper_state_t \<Rightarrow> ('p::len, 't::len) stepper \<Rightarrow> ('p, 't) stepper" where
  "apply_phase st s = s\<lparr>gpio := gpio s @ StepperSet (have_enable_pins s) (pins s) st\<rparr>"

text \<open>
  \<^verbatim>\<open>current_scheme[current_phase]\<close>: the index is an \<^verbatim>\<open>int8_t\<close>; a read outside the
  table is undefined behaviour, \<open>None\<close> here.
\<close>

definition phase_at :: "stepper_state_t list \<Rightarrow> 8 word \<Rightarrow> stepper_state_t option" where
  "phase_at tbl i =
     (if 0 \<le> sint i \<and> nat (sint i) < length tbl then Some (tbl ! nat (sint i)) else None)"

text \<open>
  The macro \<^verbatim>\<open>ESP8266_CLOCK\<close> is defined outside the sources.  Its value is taken from the
  comment in the interrupt routine of part_000: in \<^verbatim>\<open>(ESP8266_CLOCK / 1000000) * tick_us\<close>
  ``the multiplier is 80''.
\<close>

definition ESP8266_CLOCK :: "32 word" where
  "ESP8266_CLOCK = 80000000"

subsection \<open>Revision sonoff/xdrv_23_stepper.ino: commands\<close>

definition StepperCmndCalibrate :: "stepper32 \<Rightarrow> response \<times> stepper32" where
  "StepperCmndCalibrate s =
     (Done, apply_phase all_off (s\<lparr>current_pos := 0, wanted_pos := 0, idle := True\<rparr>))"

text \<open>
  The \<^verbatim>\<open>switch (scheme_code)\<close> of \<^verbatim>\<open>StepperCmndSpeed\<close>; \<open>None\<close> is its \<^verbatim>\<open>default\<close> branch,
  which answers with an error and returns.
\<close>

definition scheme_switch :: "32 word \<Rightarrow> stepper32 \<Rightarrow> stepper32 option" where
  "scheme_switch scheme_code s =
     (if scheme_code = 0 then Some (s\<lparr>current_scheme := rotating_wave, max_phase := 4\<rparr>)
      else if scheme_code = 1 then Some (s\<lparr>current_scheme := full_step, max_phase := 4\<rparr>)
      else if scheme_code = 2 then Some (s\<lparr>current_scheme := half_step, max_phase := 8\<rparr>)
      else if scheme_code = 3 then
        (if have_enable_pins s
         then Some (s\<lparr>current_scheme := half_step_inhibit, max_phase := 8\<rparr>)
         else Some (s\<lparr>current_scheme := half_step, max_phase := 8\<rparr>))
      else None)"

text \<open>
  \<^verbatim>\<open>StepperCmndSpeed\<close>, arguments \<^verbatim>\<open>tick_us, scheme code\<close>.  \<open>speed_scheme_arg\<close> is the second
  part of its loop (\<^verbatim>\<open>// parse @scheme_code\<close>), entered with the save pointer of
  \<^verbatim>\<open>strtok_r\<close>.  In the first part (\<^verbatim>\<open>// parse @tick_us\<close>) \<^verbatim>\<open>tick_us\<close> is assigned the result
  of \<^verbatim>\<open>strtol\<close> before \<open>p = str\<close> is tested.
\<close>

definition speed_scheme_arg :: "string \<Rightarrow> stepper32 \<Rightarrow> response \<times> stepper32" where
  "speed_scheme_arg rest1 s1 =
     (case strtok_r rest1 (CHR '','') of
        None \<Rightarrow> (Done, s1)
      | Some (tok2, rest2) \<Rightarrow>
          let str2 = dropWhile isspace tok2
          in if str2 = [] then (Done, s1)
             else if \<not> snd (strtol str2) then (Error, s1)
             else
               (case scheme_switch (word_of_int (fst (strtol str2))) s1 of
                  None \<Rightarrow> (Error, s1)
                | Some s2 \<Rightarrow> (Done, s2\<lparr>current_phase := 0\<rparr>)))"

definition StepperCmndSpeed :: "string \<Rightarrow> stepper32 \<Rightarrow> response \<times> stepper32" where
  "StepperCmndSpeed data s =
     (case strtok_r (cstring data) (CHR '','') of
        None \<Rightarrow> (Done, s)
      | Some (tok1, rest1) \<Rightarrow>
          let str = dropWhile isspace tok1;
              s1 = (if str \<noteq> [] then s\<lparr>tick_us := word_of_int (fst (strtol str))\<rparr> else s)
          in if str \<noteq> [] \<and> \<not> snd (strtol str) then (Error, s1)
             else speed_scheme_arg rest1 s1)"

text \<open>
  The block that parses a 0/1 flag, twice in \<^verbatim>\<open>StepperCmndStep\<close>: \<^verbatim>\<open>strtol\<close>, else
  \<^verbatim>\<open>GetStateNumber\<close> (a function of the firmware, taken as the parameter \<open>gsn\<close>);
  \<open>None\<close> when the value is neither 0 nor 1.
\<close>

definition parse_flag :: "(string \<Rightarrow> int) \<Rightarrow> string \<Rightarrow> bool option" where
  "parse_flag gsn str =
     (let i = (if snd (strtol str) then word_of_int (fst (strtol str)) else word_of_int (gsn str)
               :: 32 word)
      in if i \<noteq> 0 \<and> i \<noteq> 1 then None else Some (i \<noteq> 0))"

text \<open>
  The \<^verbatim>\<open>do { ... } while (0)\<close> of \<^verbatim>\<open>StepperCmndStep\<close>, entered with
  \<^verbatim>\<open>is_absolute = true\<close>, \<^verbatim>\<open>req_pos = 0\<close>: \<open>Inl\<close> is an error return, \<open>Inr\<close> carries
  \<^verbatim>\<open>req_pos\<close>, \<^verbatim>\<open>is_absolute\<close> and the state (whose \<^verbatim>\<open>lock_when_done\<close> the third
  argument sets) to the code after the loop.  The loop of part_000 has the same text
  with \<^verbatim>\<open>req_pos = (int16_t)strtol(...)\<close>: the width of \<^verbatim>\<open>req_pos\<close> is that of the positions.
\<close>

definition step_args ::
  "(string \<Rightarrow> int) \<Rightarrow> string \<Rightarrow> ('p::len, 't::len) stepper \<Rightarrow>
     ('p, 't) stepper + ('p word \<times> bool \<times> ('p, 't) stepper)" where
  "step_args gsn buffer s =
     (case strtok_r buffer (CHR '','') of
        None \<Rightarrow> Inr (0, True, s)
      | Some (tok1, rest1) \<Rightarrow>
          let str = dropWhile isspace tok1
          in if str \<noteq> [] \<and> \<not> snd (strtol str) then Inl s
             else
               let req_pos = (if str \<noteq> [] then word_of_int (fst (strtol str)) else 0)
               in (case strtok_r rest1 (CHR '','') of
                     None \<Rightarrow> Inr (req_pos, True, s)
                   | Some (tok2, rest2) \<Rightarrow>
                       let str2 = dropWhile isspace tok2
                       in (case (if str2 = [] then Some True else parse_flag gsn str2) of
                             None \<Rightarrow> Inl s
                           | Some is_absolute \<Rightarrow>
                               (case strtok_r rest2 (CHR '','') of
                                  None \<Rightarrow> Inr (req_pos, is_absolute, s)
                                | Some (tok3, rest3) \<Rightarrow>
                                    let str3 = dropWhile isspace tok3
                                    in if str3 = [] then Inr (req_pos, is_absolute, s)
                                       else
                                         (case parse_flag gsn str3 of
                                            None \<Rightarrow> Inl s
                                          | Some l \<Rightarrow>
                                              Inr (req_pos, is_absolute,
                                                   s\<lparr>lock_when_done := l\<rparr>))))))"

definition StepperCmndStep ::
  "(string \<Rightarrow> int) \<Rightarrow> string \<Rightarrow> stepper32 \<Rightarrow> response \<times> stepper32" where
  "StepperCmndStep gsn data s =
     (case step_args gsn (cstring data) (s\<lparr>lock_when_done := False\<rparr>) of
        Inl s1 \<Rightarrow> (Error, s1)
      | Inr (req_pos, is_absolute, s1) \<Rightarrow>
          let s2 = s1\<lparr>wanted_pos := (if is_absolute then req_pos else current_pos s1 + req_pos)\<rparr>;
              s3 = s2\<lparr>TEIE1_on := False\<rparr>;
              s4 = (if idle s3 then s3\<lparr>idle := False, T1L := 1\<rparr> else s3)
          in (Done, s4\<lparr>TEIE1_on := True\<rparr>))"

subsection \<open>Revision sonoff/xdrv_23_stepper.ino: timer interrupt and start-up\<close>

text \<open>
  The three branches of the interrupt routine.  \<^verbatim>\<open>--current_phase\<close> and
  \<^verbatim>\<open>++current_phase\<close> are 8-bit, the comparisons signed.
\<close>

definition isr_branch :: "stepper32 \<Rightarrow> stepper32 option" where
  "isr_branch s =
     (if wanted_pos s <s current_pos s then
        let cp = current_phase s - 1;
            s1 = s\<lparr>current_phase := (if cp <s 0 then max_phase s - 1 else cp)\<rparr>;
            s2 = s1\<lparr>current_pos := current_pos s1 - 1\<rparr>
        in map_option (\<lambda>st. apply_phase st s2) (phase_at (current_scheme s2) (current_phase s2))
      else if current_pos s <s wanted_pos s then
        let cp = current_phase s + 1;
            s1 = s\<lparr>current_phase := (if max_phase s \<le>s cp then 0 else cp)\<rparr>;
            s2 = s1\<lparr>current_pos := current_pos s1 + 1\<rparr>
        in map_option (\<lambda>st. apply_phase st s2) (phase_at (current_scheme s2) (current_phase s2))
      else
        map_option (\<lambda>st. (apply_phase st s)\<lparr>idle := True\<rparr>)
          (if lock_when_done s then phase_at (current_scheme s) (current_phase s)
           else Some all_off))"

definition stepper_timer_isr :: "stepper32 \<Rightarrow> stepper32 option" where
  "stepper_timer_isr s =
     (case isr_branch (s\<lparr>TEIE1_on := False, T1I := 0\<rparr>) of
        None \<Rightarrow> None
      | Some s1 \<Rightarrow>
          Some (if \<not> idle s1
                then s1\<lparr>T1L := (ESP8266_CLOCK div 1000000) * tick_us s1, TEIE1_on := True\<rparr>
                else s1))"

text \<open>
  \<^verbatim>\<open>StepperInit\<close>; \<open>pn\<close> is the pin configuration read from \<^verbatim>\<open>pin[]\<close>, the argument state
  the globals and registers before the call.  \<^verbatim>\<open>pinMode\<close> and the calls that attach
  and configure timer 1 touch nothing of the state and are left out.
\<close>

definition StepperInit :: "pin_map \<Rightarrow> stepper32 \<Rightarrow> stepper32" where
  "StepperInit pn s0 =
     (let s1 = s0\<lparr>pins := pn\<rparr>;
          s2 = s1\<lparr>enabled := (stepper_A_pos_pin pn < 99 \<and> stepper_A_neg_pin pn < 99 \<and>
                              stepper_B_pos_pin pn < 99 \<and> stepper_B_neg_pin pn < 99)\<rparr>;
          s3 = s2\<lparr>have_enable_pins := (enabled s2 \<and> stepper_A_ena_pin pn < 99 \<and>
                                       stepper_B_ena_pin pn < 99)\<rparr>;
          s4 = (if enabled s3 then
                  s3\<lparr>gpio := gpio s3 @
                        (if have_enable_pins s3
                         then [(stepper_A_ena_pin pn, False), (stepper_B_ena_pin pn, False)]
                         else []) @
                        [(stepper_A_pos_pin pn, False), (stepper_A_neg_pin pn, False),
                         (stepper_B_pos_pin pn, False), (stepper_B_neg_pin pn, False)],
                     TEIE1_on := False\<rparr>
                else s3)
      in s4\<lparr>tick_us := 2000, current_scheme := half_step, max_phase := 8, idle := True,
            wanted_pos := 0, lock_when_done := False, current_phase := 0, current_pos := 0\<rparr>)"

subsection \<open>Revision sonoff/xdrv_23_stepper.ino: statements of the commands\<close>

text \<open>
  \<^verbatim>\<open>StepperInit\<close> attaches \<^verbatim>\<open>stepper_timer_isr\<close> as the non-maskable interrupt of timer 1.
  \<^verbatim>\<open>StepperCmndCalibrate\<close> and \<^verbatim>\<open>StepperCmndSpeed\<close> never clear bit \<^verbatim>\<open>TEIE1\<close>, and
  \<^verbatim>\<open>StepperCmndStep\<close> clears it only around its last \<^verbatim>\<open>if\<close>: while the bit is set, the
  routine can run between any two statements of a command.  So the commands are given
  once more, as the list of their statements that write a global, a register or a pin,
  in program order.  The locals and the argument buffer are out of the routine's reach:
  what a command computes from them is part of the statement that uses the result.
\<close>

type_synonym statement = "stepper32 \<Rightarrow> stepper32"

definition execute :: "statement list \<Rightarrow> statement" where
  "execute fs s = fold (\<lambda>f. f) fs s"

text \<open>One \<^verbatim>\<open>digitalWrite(pin, value)\<close>, the pin number read from the named global.\<close>

definition write_pin :: "(pin_map \<Rightarrow> 8 word) \<Rightarrow> bool \<Rightarrow> statement" where
  "write_pin p v s = s\<lparr>gpio := gpio s @ [(p (pins s), v)]\<rparr>"

text \<open>The eight conditional or unconditional writes of \<^verbatim>\<open>StepperSet(st)\<close>.\<close>

definition StepperSet_statements :: "stepper_state_t \<Rightarrow> statement list" where
  "StepperSet_statements st =
     [\<lambda>s. if have_enable_pins s \<and> \<not> A_ena st then write_pin stepper_A_ena_pin False s else s,
      \<lambda>s. if have_enable_pins s \<and> \<not> B_ena st then write_pin stepper_B_ena_pin False s else s,
      write_pin stepper_A_pos_pin (A_pos st),
      write_pin stepper_A_neg_pin (A_neg st),
      write_pin stepper_B_pos_pin (B_pos st),
      write_pin stepper_B_neg_pin (B_neg st),
      \<lambda>s. if have_enable_pins s \<and> A_ena st then write_pin stepper_A_ena_pin True s else s,
      \<lambda>s. if have_enable_pins s \<and> B_ena st then write_pin stepper_B_ena_pin True s else s]"

definition StepperCmndCalibrate_statements :: "statement list" where
  "StepperCmndCalibrate_statements =
     [\<lambda>s. s\<lparr>current_pos := 0\<rparr>,
      \<lambda>s. s\<lparr>wanted_pos := 0\<rparr>,
      \<lambda>s. s\<lparr>idle := True\<rparr>] @
     StepperSet_statements all_off"

text \<open>
  The \<^verbatim>\<open>switch (scheme_code)\<close>: in every case \<^verbatim>\<open>current_scheme\<close> is assigned first,
  \<^verbatim>\<open>max_phase\<close> second.  \<^verbatim>\<open>current_phase = 0\<close> follows the \<^verbatim>\<open>switch\<close>.
\<close>

definition scheme_switch_statements :: "32 word \<Rightarrow> statement list option" where
  "scheme_switch_statements scheme_code =
     (if scheme_code = 0
      then Some [\<lambda>s. s\<lparr>current_scheme := rotating_wave\<rparr>, \<lambda>s. s\<lparr>max_phase := 4\<rparr>]
      else if scheme_code = 1
      then Some [\<lambda>s. s\<lparr>current_scheme := full_step\<rparr>, \<lambda>s. s\<lparr>max_phase := 4\<rparr>]
      else if scheme_code = 2
      then Some [\<lambda>s. s\<lparr>current_scheme := half_step\<rparr>, \<lambda>s. s\<lparr>max_phase := 8\<rparr>]
      else if scheme_code = 3
      then Some [\<lambda>s. s\<lparr>current_scheme :=
                          (if have_enable_pins s then half_step_inhibit else half_step)\<rparr>,
                 \<lambda>s. s\<lparr>max_phase := 8\<rparr>]
      else None)"

definition speed_scheme_arg_statements :: "string \<Rightarrow> statement list" where
  "speed_scheme_arg_statements rest1 =
     (case strtok_r rest1 (CHR '','') of
        None \<Rightarrow> []
      | Some (tok2, rest2) \<Rightarrow>
          let str2 = dropWhile isspace tok2
          in if str2 = [] then []
             else if \<not> snd (strtol str2) then []
             else
               (case scheme_switch_statements (word_of_int (fst (strtol str2))) of
                  None \<Rightarrow> []
                | Some fs \<Rightarrow> fs @ [\<lambda>s. s\<lparr>current_phase := 0\<rparr>]))"

definition StepperCmndSpeed_statements :: "string \<Rightarrow> statement list" where
  "StepperCmndSpeed_statements data =
     (case strtok_r (cstring data) (CHR '','') of
        None \<Rightarrow> []
      | Some (tok1, rest1) \<Rightarrow>
          let str = dropWhile isspace tok1
          in (if str \<noteq> [] then [\<lambda>s. s\<lparr>tick_us := word_of_int (fst (strtol str))\<rparr>] else []) @
             (if str \<noteq> [] \<and> \<not> snd (strtol str) then [] else speed_scheme_arg_statements rest1))"

text \<open>
  \<^verbatim>\<open>StepperCmndStep\<close>: \<^verbatim>\<open>lock_when_done = false\<close>; the argument loop, which reads nothing
  of the globals and assigns \<^verbatim>\<open>lock_when_done\<close> at most (its outcome is computed on
  \<open>s0\<close>, the state when the command is called); \<^verbatim>\<open>wanted_pos = ...\<close>, which reads
  \<^verbatim>\<open>current_pos\<close> when it is executed; and the last three statements, the \<^verbatim>\<open>if (idle)\<close>
  being one step because it runs with \<^verbatim>\<open>TEIE1\<close> cleared.
\<close>

definition StepperCmndStep_statements ::
  "(string \<Rightarrow> int) \<Rightarrow> string \<Rightarrow> stepper32 \<Rightarrow> statement list" where
  "StepperCmndStep_statements gsn data s0 =
     (\<lambda>s. s\<lparr>lock_when_done := False\<rparr>) #
     (case step_args gsn (cstring data) (s0\<lparr>lock_when_done := False\<rparr>) of
        Inl s1 \<Rightarrow> []
      | Inr (req_pos, is_absolute, s1) \<Rightarrow>
          [\<lambda>s. s\<lparr>lock_when_done := lock_when_done s1\<rparr>,
           \<lambda>s. s\<lparr>wanted_pos := (if is_absolute then req_pos else current_pos s + req_pos)\<rparr>,
           \<lambda>s. s\<lparr>TEIE1_on := False\<rparr>,
           \<lambda>s. if idle s then s\<lparr>idle := False, T1L := 1\<rparr> else s,
           \<lambda>s. s\<lparr>TEIE1_on := True\<rparr>])"

subsection \<open>Revision sonoff/xdrv_23_stepper.ino: runs\<close>

text \<open>
  \<^verbatim>\<open>Xdrv23(FUNC_COMMAND)\<close> dispatches a command only when the module is \<^verbatim>\<open>enabled\<close>: the
  statements that the call will execute.
\<close>

datatype command = Calibrate | Speed string | Step string

definition Xdrv23 :: "(string \<Rightarrow> int) \<Rightarrow> command \<Rightarrow> stepper32 \<Rightarrow> statement list" where
  "Xdrv23 gsn c s =
     (if enabled s
      then (case c of
              Calibrate \<Rightarrow> StepperCmndCalibrate_statements
            | Speed data \<Rightarrow> StepperCmndSpeed_statements data
            | Step data \<Rightarrow> StepperCmndStep_statements gsn data s)
      else [])"

text \<open>
  What can happen after start-up, in a configuration made of the statements the command
  in progress has still to execute and of the state: the main loop calls a command
  (when none is in progress), the command in progress executes its next statement, or
  the timer interrupt fires, which it can when the module is enabled and bit \<^verbatim>\<open>TEIE1\<close>
  is set.  The interrupt routine runs as one step.  A step is \<open>None\<close> when the routine
  reads outside the phase table.
\<close>

datatype event = Command command | Statement | Tick

definition step ::
  "(string \<Rightarrow> int) \<Rightarrow> event \<Rightarrow> statement list \<times> stepper32 \<Rightarrow>
     (statement list \<times> stepper32) option" where
  "step gsn e c =
     (case e of
        Command cmd \<Rightarrow> Some (if fst c = [] then (Xdrv23 gsn cmd (snd c), snd c) else c)
      | Statement \<Rightarrow> Some (case fst c of [] \<Rightarrow> c | f # fs \<Rightarrow> (fs, f (snd c)))
      | Tick \<Rightarrow>
          (if enabled (snd c) \<and> TEIE1_on (snd c)
           then map_option (Pair (fst c)) (stepper_timer_isr (snd c))
           else Some c))"

fun run ::
  "(string \<Rightarrow> int) \<Rightarrow> event list \<Rightarrow> statement list \<times> stepper32 \<Rightarrow>
     (statement list \<times> stepper32) option" where
  "run gsn [] c = Some c"
| "run gsn (e # es) c = (case step gsn e c of None \<Rightarrow> None | Some c1 \<Rightarrow> run gsn es c1)"

text \<open>
  \<open>between_commands\<close>: in the run of \<open>es\<close> from \<open>c\<close>, no interrupt fires while a command is
  in progress.
\<close>

fun between_commands ::
  "(string \<Rightarrow> int) \<Rightarrow> event list \<Rightarrow> statement list \<times> stepper32 \<Rightarrow> bool" where
  "between_commands gsn [] c = True"
| "between_commands gsn (e # es) c =
     ((e \<noteq> Tick \<or> fst c = []) \<and>
      (case step gsn e c of None \<Rightarrow> True | Some c1 \<Rightarrow> between_commands gsn es c1))"

subsection \<open>Revision part_001: polled tick and Step command\<close>

text \<open>
  \<^verbatim>\<open>StepperTick\<close>, called from \<^verbatim>\<open>FUNC_LOOP\<close> when \<^verbatim>\<open>!idle\<close> and the tick time is reached.
\<close>

definition StepperTick :: "stepper32 \<Rightarrow> stepper32 option" where
  "StepperTick s =
     (if wanted_pos s <s current_pos s then
        let cp = current_phase s - 1;
            s1 = s\<lparr>current_phase := (if cp <s 0 then max_phase s - 1 else cp)\<rparr>;
            s2 = s1\<lparr>current_pos := current_pos s1 - 1\<rparr>
        in map_option (\<lambda>st. apply_phase st s2) (phase_at (current_scheme s2) (current_phase s2))
      else if current_pos s <s wanted_pos s then
        let cp = current_phase s + 1;
            s1 = s\<lparr>current_phase := (if max_phase s \<le>s cp then 0 else cp)\<rparr>;
            s2 = s1\<lparr>current_pos := current_pos s1 + 1\<rparr>
        in map_option (\<lambda>st. apply_phase st s2) (phase_at (current_scheme s2) (current_phase s2))
      else
        (if lock_when_done s
         then map_option (\<lambda>st. (apply_phase st s)\<lparr>idle := True\<rparr>)
                (phase_at (current_scheme s) (current_phase s))
         else Some ((apply_phase all_off s)\<lparr>idle := True\<rparr>)))"

text \<open>
  The argument loop of part_001's \<^verbatim>\<open>StepperCmndStep\<close>, entered with
  \<^verbatim>\<open>is_relative = true\<close>, \<^verbatim>\<open>req_pos = 0\<close>.  The first token is dereferenced without a
  test: \<open>None\<close> is that read through the null pointer \<^verbatim>\<open>strtok_r\<close> returns for a buffer
  without a token.
\<close>

definition step_args_p1 ::
  "(string \<Rightarrow> int) \<Rightarrow> string \<Rightarrow> stepper32 \<Rightarrow> (stepper32 + (32 word \<times> bool \<times> stepper32)) option"
  where
  "step_args_p1 gsn buffer s =
     (case strtok_r buffer (CHR '','') of
        None \<Rightarrow> None
      | Some (tok1, rest1) \<Rightarrow>
          let str = dropWhile isspace tok1
          in if str \<noteq> [] \<and> \<not> snd (strtol str) then Some (Inl s)
             else
               let req_pos = (if str \<noteq> [] then word_of_int (fst (strtol str)) else 0)
               in (case strtok_r rest1 (CHR '','') of
                     None \<Rightarrow> Some (Inr (req_pos, True, s))
                   | Some (tok2, rest2) \<Rightarrow>
                       let str2 = dropWhile isspace tok2
                       in (case (if str2 = [] then Some True else parse_flag gsn str2) of
                             None \<Rightarrow> Some (Inl s)
                           | Some is_relative \<Rightarrow>
                               (case strtok_r rest2 (CHR '','') of
                                  None \<Rightarrow> Some (Inr (req_pos, is_relative, s))
                                | Some (tok3, rest3) \<Rightarrow>
                                    let str3 = dropWhile isspace tok3
                                    in if str3 = [] then Some (Inr (req_pos, is_relative, s))
                                       else
                                         (case parse_flag gsn str3 of
                                            None \<Rightarrow> Some (Inl s)
                                          | Some l \<Rightarrow>
                                              Some (Inr (req_pos, is_relative,
                                                         s\<lparr>lock_when_done := l\<rparr>)))))))"


subsection \<open>Revision part_000: persistent position, scheme table, 16-bit tick period\<close>

text \<open>
  The table \<^verbatim>\<open>control_schemes\<close> of \<^verbatim>\<open>{phases, max_phase}\<close> entries, \<^verbatim>\<open>max_phase\<close> being
  \<^verbatim>\<open>sizeof(table) / sizeof(stepper_state_t)\<close>.
\<close>

definition control_schemes :: "(stepper_state_t list \<times> 8 word) list" where
  "control_schemes =
     [(rotating_wave, of_nat (length rotating_wave)),
      (full_step, of_nat (length full_step)),
      (half_step, of_nat (length half_step)),
      (half_step_inhibit, of_nat (length half_step_inhibit))]"

definition SCHEMES_MAX :: "32 word" where
  "SCHEMES_MAX = of_nat (length control_schemes)"

text \<open>
  \<^verbatim>\<open>SaveCurrentPos\<close>: the low and the high byte of \<^verbatim>\<open>current_pos\<close> (promoted to \<^verbatim>\<open>int\<close>,
  shifted arithmetically) go to \<^verbatim>\<open>Settings.pwm_value[0]\<close> and \<^verbatim>\<open>[1]\<close>.
\<close>

definition SaveCurrentPos :: "stepper16 \<Rightarrow> stepper16" where
  "SaveCurrentPos s =
     (let s1 = s\<lparr>Settings_pwm_value := (Settings_pwm_value s)
                   (0 := ucast (ucast ((scast (current_pos s) :: 32 word) AND 0xff) :: 8 word))\<rparr>
      in s1\<lparr>Settings_pwm_value := (Settings_pwm_value s1)
               (1 := ucast (ucast (signed_drop_bit 8 (scast (current_pos s1) :: 32 word) AND 0xff)
                            :: 8 word))\<rparr>)"

text \<open>
  The expression by which \<^verbatim>\<open>StepperInit\<close> of part_000 restores \<^verbatim>\<open>current_pos\<close> at
  start-up: \<^verbatim>\<open>(int16_t)(pwm_value[0] + (((uint16_t)pwm_value[1]) << 8))\<close>.
\<close>

definition restored_pos :: "(nat \<Rightarrow> 16 word) \<Rightarrow> 16 word" where
  "restored_pos pwm_value =
     ucast ((ucast (pwm_value 0) :: 32 word) + push_bit 8 (ucast (pwm_value 1) :: 32 word))"

text \<open>
  The interrupt routine of part_000.  \<^verbatim>\<open>max_phase\<close> is unsigned here; on arrival the
  position is saved.
\<close>

definition isr_branch_p0 :: "stepper16 \<Rightarrow> stepper16 option" where
  "isr_branch_p0 s =
     (if wanted_pos s <s current_pos s then
        let cp = current_phase s - 1;
            s1 = s\<lparr>current_phase := (if cp <s 0 then max_phase s - 1 else cp)\<rparr>;
            s2 = s1\<lparr>current_pos := current_pos s1 - 1\<rparr>
        in map_option (\<lambda>st. apply_phase st s2) (phase_at (current_scheme s2) (current_phase s2))
      else if current_pos s <s wanted_pos s then
        let cp = current_phase s + 1;
            s1 = s\<lparr>current_phase := (if uint (max_phase s) \<le> sint cp then 0 else cp)\<rparr>;
            s2 = s1\<lparr>current_pos := current_pos s1 + 1\<rparr>
        in map_option (\<lambda>st. apply_phase st s2) (phase_at (current_scheme s2) (current_phase s2))
      else
        map_option (\<lambda>st. (SaveCurrentPos (apply_phase st s))\<lparr>idle := True\<rparr>)
          (if lock_when_done s then phase_at (current_scheme s) (current_phase s)
           else Some all_off))"

definition stepper_timer_isr_p0 :: "stepper16 \<Rightarrow> stepper16 option" where
  "stepper_timer_isr_p0 s =
     (case isr_branch_p0 (s\<lparr>TEIE1_on := False, T1I := 0\<rparr>) of
        None \<Rightarrow> None
      | Some s1 \<Rightarrow>
          Some (if \<not> idle s1
                then s1\<lparr>T1L := (ESP8266_CLOCK div 1000000) * ucast (tick_us s1), TEIE1_on := True\<rparr>
                else s1))"

text \<open>
  \<^verbatim>\<open>SelectScheme(n)\<close>.  Its last statement, \<^verbatim>\<open>if (!idle) TEIE |= ~TEIE1\<close>, sets the other
  bits of \<^verbatim>\<open>TEIE\<close> and leaves bit \<^verbatim>\<open>TEIE1\<close> as the function cleared it.
\<close>

definition SelectScheme :: "32 word \<Rightarrow> stepper16 \<Rightarrow> bool \<times> stepper16" where
  "SelectScheme n s =
     (if n <s 0 \<or> SCHEMES_MAX \<le> n then (False, s)
      else if n = ucast (current_scheme_index s) then (True, s)
      else
        let s1 = s\<lparr>TEIE1_on := False\<rparr>;
            s2 = s1\<lparr>current_scheme_index := ucast n\<rparr>;
            s3 = s2\<lparr>wanted_pos := current_pos s2\<rparr>;
            s4 = s3\<lparr>current_phase := 0\<rparr>;
            s5 = s4\<lparr>current_scheme := fst (control_schemes ! unat n),
                    max_phase := snd (control_schemes ! unat n)\<rparr>;
            s6 = s5\<lparr>Settings_pwm_value :=
                      (Settings_pwm_value s5)(5 := ucast (current_scheme_index s5))\<rparr>
        in (True, s6))"

text \<open>
  \<^verbatim>\<open>StepperCmndSpeed\<close> of part_000, in the same two parts: the period is parsed into the
  local \<^verbatim>\<open>req_tick_us\<close> (a \<^verbatim>\<open>uint16_t\<close>) and stored, also into \<^verbatim>\<open>Settings.pwm_frequency\<close>,
  when it differs; the scheme goes through \<^verbatim>\<open>SelectScheme\<close>.
\<close>

definition speed_scheme_arg_p0 :: "string \<Rightarrow> stepper16 \<Rightarrow> response \<times> stepper16" where
  "speed_scheme_arg_p0 rest1 s1 =
     (case strtok_r rest1 (CHR '','') of
        None \<Rightarrow> (Done, s1)
      | Some (tok2, rest2) \<Rightarrow>
          let str2 = dropWhile isspace tok2
          in if str2 = [] then (Done, s1)
             else if \<not> snd (strtol str2) then (Error, s1)
             else
               (case SelectScheme (word_of_int (fst (strtol str2))) s1 of
                  (False, s2) \<Rightarrow> (Error, s2)
                | (True, s2) \<Rightarrow> (Done, s2)))"

definition StepperCmndSpeed_p0 :: "string \<Rightarrow> stepper16 \<Rightarrow> response \<times> stepper16" where
  "StepperCmndSpeed_p0 data s =
     (case strtok_r (cstring data) (CHR '','') of
        None \<Rightarrow> (Done, s)
      | Some (tok1, rest1) \<Rightarrow>
          let str = dropWhile isspace tok1;
              req_tick_us = (word_of_int (fst (strtol str)) :: 16 word)
          in if str \<noteq> [] \<and> \<not> snd (strtol str) then (Error, s)
             else
               speed_scheme_arg_p0 rest1
                 (if str \<noteq> [] \<and> req_tick_us \<noteq> tick_us s
                  then s\<lparr>tick_us := req_tick_us, Settings_pwm_frequency := req_tick_us\<rparr>
                  else s))"

text \<open>\<^verbatim>\<open>StepperCmndCalibrate\<close> of part_000: stops the timer and saves the position.\<close>

definition StepperCmndCalibrate_p0 :: "stepper16 \<Rightarrow> response \<times> stepper16" where
  "StepperCmndCalibrate_p0 s =
     (let s1 = s\<lparr>TEIE1_on := False, T1L := 0, current_pos := 0, wanted_pos := 0, idle := True\<rparr>
      in (Done, SaveCurrentPos (apply_phase all_off s1)))"

text \<open>
  \<^verbatim>\<open>StepperCmndStep\<close> of part_000: \<^verbatim>\<open>wanted_pos\<close> is assigned with the timer interrupt
  disabled.
\<close>

definition StepperCmndStep_p0 ::
  "(string \<Rightarrow> int) \<Rightarrow> string \<Rightarrow> stepper16 \<Rightarrow> response \<times> stepper16" where
  "StepperCmndStep_p0 gsn data s =
     (case step_args gsn (cstring data) (s\<lparr>lock_when_done := False\<rparr>) of
        Inl s1 \<Rightarrow> (Error, s1)
      | Inr (req_pos, is_absolute, s1) \<Rightarrow>
          let s2 = s1\<lparr>TEIE1_on := False\<rparr>;
              s3 = s2\<lparr>wanted_pos := (if is_absolute then req_pos else current_pos s2 + req_pos)\<rparr>;
              s4 = (if idle s3 then s3\<lparr>idle := False, T1L := 1\<rparr> else s3)
          in (Done, s4\<lparr>TEIE1_on := True\<rparr>))"

text \<open>
  \<^verbatim>\<open>StepperInit\<close> of part_000: tick period, position and scheme index come from
  \<^verbatim>\<open>Settings\<close>; an index \<^verbatim>\<open>SelectScheme\<close> refuses is replaced by 1.  \<^verbatim>\<open>current_phase\<close>,
  \<^verbatim>\<open>current_scheme_index\<close> and the struct \<^verbatim>\<open>current_scheme\<close> are not assigned here.
\<close>

definition StepperInit_p0 :: "pin_map \<Rightarrow> stepper16 \<Rightarrow> stepper16" where
  "StepperInit_p0 pn s0 =
     (let s1 = s0\<lparr>pins := pn\<rparr>;
          s2 = s1\<lparr>enabled := (stepper_A_pos_pin pn < 99 \<and> stepper_A_neg_pin pn < 99 \<and>
                              stepper_B_pos_pin pn < 99 \<and> stepper_B_neg_pin pn < 99)\<rparr>;
          s3 = s2\<lparr>have_enable_pins := (enabled s2 \<and> stepper_A_ena_pin pn < 99 \<and>
                                       stepper_B_ena_pin pn < 99)\<rparr>;
          s4 = (if enabled s3 then
                  s3\<lparr>gpio := gpio s3 @
                        (if have_enable_pins s3
                         then [(stepper_A_ena_pin pn, False), (stepper_B_ena_pin pn, False)]
                         else []) @
                        [(stepper_A_pos_pin pn, False), (stepper_A_neg_pin pn, False),
                         (stepper_B_pos_pin pn, False), (stepper_B_neg_pin pn, False)],
                     TEIE1_on := False\<rparr>
                else s3);
          s5 = s4\<lparr>idle := True, wanted_pos := 0, lock_when_done := False\<rparr>;
          s6 = s5\<lparr>tick_us := Settings_pwm_frequency s5\<rparr>;
          s7 = s6\<lparr>current_pos := restored_pos (Settings_pwm_value s6)\<rparr>
      in case SelectScheme (ucast (Settings_pwm_value s7 5)) s7 of
           (True, s8) \<Rightarrow> s8
         | (False, s8) \<Rightarrow> snd (SelectScheme 1 s8))"

subsection \<open>Predicates on states\<close>

text \<open>
  \<open>phase_valid\<close>: \<^verbatim>\<open>current_phase\<close> is an index of the active table and \<^verbatim>\<open>max_phase\<close> is the
  table's length.  \<open>builtin_scheme\<close>: the table is one of the four of the source.
  \<open>idle_arrived\<close>: an idle driver has no position error.  \<open>driver_inv\<close>: the three
  together, which every command and every tick of the sonoff revision preserves when
  it runs as a whole.
\<close>

definition phase_valid :: "('p::len, 't::len) stepper \<Rightarrow> bool" where
  "phase_valid s =
     (0 \<le> sint (current_phase s) \<and> sint (current_phase s) < sint (max_phase s) \<and>
      sint (max_phase s) = int (length (current_scheme s)))"

definition builtin_scheme :: "stepper_state_t list \<Rightarrow> bool" where
  "builtin_scheme tbl =
     (tbl = rotating_wave \<or> tbl = full_step \<or> tbl = half_step \<or> tbl = half_step_inhibit)"

definition idle_arrived :: "('p::len, 't::len) stepper \<Rightarrow> bool" where
  "idle_arrived s = (if idle s then wanted_pos s = current_pos s else True)"

definition driver_inv :: "stepper32 \<Rightarrow> bool" where
  "driver_inv s = (phase_valid s \<and> builtin_scheme (current_scheme s) \<and> idle_arrived s)"

text \<open>
  What a tick does when it moves: the phase index goes one up or down modulo
  \<^verbatim>\<open>max_phase\<close>, the position one up or down, the phase at the new index is written to
  the pins, and target, scheme and \<^verbatim>\<open>idle\<close> stay.
\<close>

definition moved_one_step :: "stepper32 \<Rightarrow> stepper32 \<Rightarrow> bool" where
  "moved_one_step s s' =
     ((if current_pos s <s wanted_pos s
       then sint (current_phase s') = (sint (current_phase s) + 1) mod sint (max_phase s) \<and>
            sint (current_pos s') = sint (current_pos s) + 1
       else sint (current_phase s') = (sint (current_phase s) - 1) mod sint (max_phase s) \<and>
            sint (current_pos s') = sint (current_pos s) - 1) \<and>
      gpio s' = gpio s @ StepperSet (have_enable_pins s) (pins s)
                           (current_scheme s ! nat (sint (current_phase s'))) \<and>
      wanted_pos s' = wanted_pos s \<and> current_scheme s' = current_scheme s \<and>
      max_phase s' = max_phase s \<and> idle s' = idle s)"

subsection \<open>Inputs of the examples\<close>

text \<open>
  A pin configuration with the four direction pins only (99 stands for a pin that is
  not configured), one with the enable pins as well, the zero-initialised globals
  before \<^verbatim>\<open>StepperInit\<close>, and a \<^verbatim>\<open>GetStateNumber\<close> that knows no state name.
\<close>

definition pins4 :: pin_map where
  "pins4 = \<lparr>stepper_A_ena_pin = 99, stepper_A_pos_pin = 12, stepper_A_neg_pin = 13,
             stepper_B_ena_pin = 99, stepper_B_pos_pin = 14, stepper_B_neg_pin = 15\<rparr>"

definition pins6 :: pin_map where
  "pins6 = \<lparr>stepper_A_ena_pin = 4, stepper_A_pos_pin = 12, stepper_A_neg_pin = 13,
             stepper_B_ena_pin = 5, stepper_B_pos_pin = 14, stepper_B_neg_pin = 15\<rparr>"

definition power_on :: "('p::len, 't::len) stepper" where
  "power_on =
     \<lparr>tick_us = 0,
      pins = \<lparr>stepper_A_ena_pin = 0, stepper_A_pos_pin = 0, stepper_A_neg_pin = 0,
               stepper_B_ena_pin = 0, stepper_B_pos_pin = 0, stepper_B_neg_pin = 0\<rparr>,
      enabled = False, have_enable_pins = False, current_scheme = [], current_phase = 0,
      max_phase = 0, current_pos = 0, wanted_pos = 0, idle = False, lock_when_done = False,
      current_scheme_index = 0, Settings_pwm_frequency = 0, Settings_pwm_value = (\<lambda>i. 0),
      TEIE1_on = False, T1L = 0, T1I = 0, gpio = []\<rparr>"

definition no_state_number :: "string \<Rightarrow> int" where
  "no_state_number str = - 1"

text \<open>
  The sonoff revision: just started on four pins; then bound for 3; bound for 5 with
  the lock requested; and arrived at position 1, after \<^verbatim>\<open>Step 1\<close> and one tick
  (\<open>power_on\<close> itself should the tick not return).
\<close>

definition started :: stepper32 where
  "started = StepperInit pins4 power_on"

definition bound_for_3 :: stepper32 where
  "bound_for_3 = snd (StepperCmndStep no_state_number ''3'' started)"

definition locked_move :: stepper32 where
  "locked_move = snd (StepperCmndStep no_state_number ''5,1,1'' started)"

definition arrived_at_1 :: stepper32 where
  "arrived_at_1 =
     (case stepper_timer_isr (snd (StepperCmndStep no_state_number ''1'' started)) of
        None \<Rightarrow> power_on
      | Some s \<Rightarrow> s)"

text \<open>
  Two runs of the sonoff revision.  A move down to -3 is called and completes, two
  ticks bring the driver to position -2 at phase 6 of the half-step table; then
  \<^verbatim>\<open>Speed  ,0\<close> is called and executes \<^verbatim>\<open>current_scheme = rotating_wave\<close> and
  \<^verbatim>\<open>max_phase = 4\<close>.  A move to 3 is called and completes; then Calibrate is called and
  executes \<^verbatim>\<open>current_pos = 0\<close>, the interrupt fires, and Calibrate executes its other
  ten statements.
\<close>

definition Speed_in_progress :: "event list" where
  "Speed_in_progress =
     Command (Step ''-3'') # replicate 6 Statement @
     [Tick, Tick, Command (Speed '' ,0''), Statement, Statement]"

definition Calibrate_interrupted :: "event list" where
  "Calibrate_interrupted =
     Command (Step ''3'') # replicate 6 Statement @
     [Command Calibrate, Statement, Tick] @ replicate 10 Statement"

text \<open>
  Part_000 started on four pins from settings that hold position -2, tick period 2000
  and scheme index 2, and the same with a Step to 5 under way.
\<close>

definition stored_settings :: stepper16 where
  "stored_settings =
     power_on\<lparr>Settings_pwm_frequency := 2000,
       Settings_pwm_value := (\<lambda>i. 0)(0 := 0xFE, 1 := 0xFF, 5 := 2)\<rparr>"

definition started_p0 :: stepper16 where
  "started_p0 = StepperInit_p0 pins4 stored_settings"

definition moving_p0 :: stepper16 where
  "moving_p0 = snd (StepperCmndStep_p0 no_state_number ''5,1,1'' started_p0)"

section \<open>Properties\<close>

subsection \<open>Signed 8-bit and 32-bit steps\<close>

lemma sint_succ32: "sint (w::32 word) < sint (v::32 word) \<Longrightarrow> sint (w + 1) = sint w + 1"
proof -
  assume a: "sint w < sint v"
  have "sint v < 2 ^ 31" using sint_lt [of v] by simp
  moreover have "- (2 ^ 31) \<le> sint w" using sint_ge [of w] by simp
  ultimately have "signed_take_bit 31 (sint w + 1) = sint w + 1"
    using a by (intro signed_take_bit_int_eq_self) auto
  then show ?thesis by (simp add: sint_word_ariths)
qed

lemma sint_pred32: "sint (v::32 word) < sint (w::32 word) \<Longrightarrow> sint (w - 1) = sint w - 1"
proof -
  assume a: "sint v < sint w"
  have "sint w < 2 ^ 31" using sint_lt [of w] by simp
  moreover have "- (2 ^ 31) \<le> sint v" using sint_ge [of v] by simp
  ultimately have "signed_take_bit 31 (sint w - 1) = sint w - 1"
    using a by (intro signed_take_bit_int_eq_self) auto
  then show ?thesis by (simp add: sint_word_ariths)
qed

lemma sint_succ8: "sint (w::8 word) < sint (v::8 word) \<Longrightarrow> sint (w + 1) = sint w + 1"
proof -
  assume a: "sint w < sint v"
  have "sint v < 2 ^ 7" using sint_lt [of v] by simp
  moreover have "- (2 ^ 7) \<le> sint w" using sint_ge [of w] by simp
  ultimately have "signed_take_bit 7 (sint w + 1) = sint w + 1"
    using a by (intro signed_take_bit_int_eq_self) auto
  then show ?thesis by (simp add: sint_word_ariths)
qed

lemma sint_pred8: "sint (v::8 word) < sint (w::8 word) \<Longrightarrow> sint (w - 1) = sint w - 1"
proof -
  assume a: "sint v < sint w"
  have "sint w < 2 ^ 7" using sint_lt [of w] by simp
  moreover have "- (2 ^ 7) \<le> sint v" using sint_ge [of v] by simp
  ultimately have "signed_take_bit 7 (sint w - 1) = sint w - 1"
    using a by (intro signed_take_bit_int_eq_self) auto
  then show ?thesis by (simp add: sint_word_ariths)
qed

lemma phase_up:
  assumes "0 \<le> sint (cp::8 word)" "sint cp < sint (mp::8 word)"
  shows "sint (if mp \<le>s cp + 1 then 0 else cp + 1) = (sint cp + 1) mod sint mp"
proof -
  have s: "sint (cp + 1) = sint cp + 1" using assms(2) by (rule sint_succ8)
  show ?thesis
  proof (cases "mp \<le>s cp + 1")
    case True
    then have "sint cp + 1 = sint mp" using assms s by (simp add: word_sle_eq)
    then show ?thesis using True by simp
  next
    case False
    then have "sint cp + 1 < sint mp" using s by (simp add: word_sle_eq)
    then show ?thesis using False s assms by simp
  qed
qed

lemma phase_down:
  assumes "0 \<le> sint (cp::8 word)" "sint cp < sint (mp::8 word)"
  shows "sint (if cp - 1 <s 0 then mp - 1 else cp - 1) = (sint cp - 1) mod sint mp"
proof -
  have "sint (- 1 :: 8 word) < sint cp" using assms(1) by simp
  then have s: "sint (cp - 1) = sint cp - 1" by (rule sint_pred8)
  have "sint (- 1 :: 8 word) < sint mp" using assms by simp
  then have m: "sint (mp - 1) = sint mp - 1" by (rule sint_pred8)
  show ?thesis
  proof (cases "cp - 1 <s 0")
    case True
    then have z: "sint cp = 0" using assms s by (simp add: word_sless_alt)
    have "(- 1) mod sint mp = sint mp - 1" using assms by (simp add: zmod_minus1)
    then show ?thesis using True m z by simp
  next
    case False
    then have "0 \<le> sint cp - 1" using s by (simp add: word_sless_alt)
    then show ?thesis using False s assms by simp
  qed
qed

lemma phase_at_valid:
  "0 \<le> sint i \<Longrightarrow> sint i < int (length tbl) \<Longrightarrow> phase_at tbl i = Some (tbl ! nat (sint i))"
  by (simp add: phase_at_def)

lemma scheme_lengths:
  "length rotating_wave = 4" "length full_step = 4" "length half_step = 8"
  "length half_step_inhibit = 8"
  by (simp_all add: rotating_wave_def full_step_def half_step_def half_step_inhibit_def)

lemma index_range:
  assumes "phase_valid s"
  shows "0 \<le> (sint (current_phase s) + 1) mod sint (max_phase s)"
    "(sint (current_phase s) + 1) mod sint (max_phase s) < int (length (current_scheme s))"
    "0 \<le> (sint (current_phase s) - 1) mod sint (max_phase s)"
    "(sint (current_phase s) - 1) mod sint (max_phase s) < int (length (current_scheme s))"
proof -
  have m: "0 < sint (max_phase s)" "sint (max_phase s) = int (length (current_scheme s))"
    using assms unfolding phase_valid_def by linarith+
  show "0 \<le> (sint (current_phase s) + 1) mod sint (max_phase s)"
    using m(1) by (rule pos_mod_sign)
  show "0 \<le> (sint (current_phase s) - 1) mod sint (max_phase s)"
    using m(1) by (rule pos_mod_sign)
  have "(sint (current_phase s) + 1) mod sint (max_phase s) < sint (max_phase s)"
    using m(1) by (rule pos_mod_bound)
  then show "(sint (current_phase s) + 1) mod sint (max_phase s) < int (length (current_scheme s))"
    using m(2) by simp
  have "(sint (current_phase s) - 1) mod sint (max_phase s) < sint (max_phase s)"
    using m(1) by (rule pos_mod_bound)
  then show "(sint (current_phase s) - 1) mod sint (max_phase s) < int (length (current_scheme s))"
    using m(2) by simp
qed

text \<open>The moving branches, for the routines of sonoff and part_001.\<close>

lemma isr_branch_up:
  assumes "phase_valid s" "current_pos s <s wanted_pos s"
  shows "isr_branch s =
           Some (apply_phase (current_scheme s ! nat ((sint (current_phase s) + 1) mod sint (max_phase s)))
                   (s\<lparr>current_phase := (if max_phase s \<le>s current_phase s + 1 then 0 else current_phase s + 1),
                      current_pos := current_pos s + 1\<rparr>))"
proof -
  let ?cp = "if max_phase s \<le>s current_phase s + 1 then 0 else current_phase s + 1"
  have v: "0 \<le> sint (current_phase s)" "sint (current_phase s) < sint (max_phase s)"
    using assms(1) by (simp_all add: phase_valid_def)
  have e: "sint ?cp = (sint (current_phase s) + 1) mod sint (max_phase s)"
    using v by (rule phase_up)
  have r: "0 \<le> sint ?cp" "sint ?cp < int (length (current_scheme s))"
    using index_range [OF assms(1)] by (simp_all only: e)
  have n: "\<not> wanted_pos s <s current_pos s"
    using assms(2) by (simp add: word_sless_alt)
  have "phase_at (current_scheme s) ?cp = Some (current_scheme s ! nat (sint ?cp))"
    using r by (rule phase_at_valid)
  then show ?thesis
    using n assms(2) by (simp add: isr_branch_def Let_def e)
qed

lemma isr_branch_down:
  assumes "phase_valid s" "wanted_pos s <s current_pos s"
  shows "isr_branch s =
           Some (apply_phase (current_scheme s ! nat ((sint (current_phase s) - 1) mod sint (max_phase s)))
                   (s\<lparr>current_phase := (if current_phase s - 1 <s 0 then max_phase s - 1 else current_phase s - 1),
                      current_pos := current_pos s - 1\<rparr>))"
proof -
  let ?cp = "if current_phase s - 1 <s 0 then max_phase s - 1 else current_phase s - 1"
  have v: "0 \<le> sint (current_phase s)" "sint (current_phase s) < sint (max_phase s)"
    using assms(1) by (simp_all add: phase_valid_def)
  have e: "sint ?cp = (sint (current_phase s) - 1) mod sint (max_phase s)"
    using v by (rule phase_down)
  have r: "0 \<le> sint ?cp" "sint ?cp < int (length (current_scheme s))"
    using index_range [OF assms(1)] by (simp_all only: e)
  have "phase_at (current_scheme s) ?cp = Some (current_scheme s ! nat (sint ?cp))"
    using r by (rule phase_at_valid)
  then show ?thesis
    using assms(2) by (simp add: isr_branch_def Let_def e)
qed

lemma isr_branch_arrived:
  assumes "phase_valid s" "wanted_pos s = current_pos s"
  shows "isr_branch s =
           Some ((apply_phase (if lock_when_done s
                               then current_scheme s ! nat (sint (current_phase s))
                               else all_off) s)\<lparr>idle := True\<rparr>)"
proof -
  have "phase_at (current_scheme s) (current_phase s) =
          Some (current_scheme s ! nat (sint (current_phase s)))"
    using assms(1) by (intro phase_at_valid) (simp_all add: phase_valid_def)
  then show ?thesis
    using assms(2) by (simp add: isr_branch_def word_sless_alt)
qed

lemma StepperTick_eq: "StepperTick s = isr_branch s"
  by (simp add: StepperTick_def isr_branch_def)

subsection \<open>A moving tick\<close>

lemma isr_branch_moves:
  assumes "phase_valid s" "wanted_pos s \<noteq> current_pos s"
  shows "\<exists>s'. isr_branch s = Some s' \<and> moved_one_step s s' \<and> TEIE1_on s' = TEIE1_on s \<and> T1I s' = T1I s"
proof (cases "current_pos s <s wanted_pos s")
  case True
  have v: "0 \<le> sint (current_phase s)" "sint (current_phase s) < sint (max_phase s)"
    using assms(1) by (simp_all add: phase_valid_def)
  have p: "sint (current_pos s + 1) = sint (current_pos s) + 1"
    using True by (intro sint_succ32 [of _ "wanted_pos s"]) (simp add: word_sless_alt)
  show ?thesis
    using True p phase_up [OF v]
    by (simp add: isr_branch_up [OF assms(1) True] moved_one_step_def apply_phase_def)
next
  case False
  then have d: "wanted_pos s <s current_pos s"
    using assms(2) signed.less_linear [of "wanted_pos s" "current_pos s"] by blast
  have v: "0 \<le> sint (current_phase s)" "sint (current_phase s) < sint (max_phase s)"
    using assms(1) by (simp_all add: phase_valid_def)
  have p: "sint (current_pos s - 1) = sint (current_pos s) - 1"
    using d by (intro sint_pred32 [of "wanted_pos s"]) (simp add: word_sless_alt)
  show ?thesis
    using False p phase_down [OF v]
    by (simp add: isr_branch_down [OF assms(1) d] moved_one_step_def apply_phase_def)
qed

lemma phase_valid_regs [simp]:
  "phase_valid (s\<lparr>TEIE1_on := b, T1I := v\<rparr>) = phase_valid s"
  by (simp add: phase_valid_def)

lemma moved_one_step_regs:
  "moved_one_step (s\<lparr>TEIE1_on := b, T1I := v\<rparr>) s' = moved_one_step s s'"
  by (simp add: moved_one_step_def)

lemma moved_one_step_rearm:
  "moved_one_step s s' \<Longrightarrow> moved_one_step s (s'\<lparr>T1L := l, TEIE1_on := b\<rparr>)"
  by (simp add: moved_one_step_def)

text \<open>
  C2.  On a tick with \<^verbatim>\<open>wanted_pos \<noteq> current_pos\<close>, in a state whose phase index is valid,
  the interrupt routine of sonoff/xdrv_23_stepper.ino and \<^verbatim>\<open>StepperTick\<close> of part_001
  return, having moved one step toward the target: towards a greater target the phase
  index is incremented modulo \<^verbatim>\<open>max_phase\<close> and the position incremented, towards a
  smaller one both are decremented (the index wrapping to \<^verbatim>\<open>max_phase - 1\<close>); the writes
  appended are those of \<^verbatim>\<open>StepperSet\<close> for the phase at the new index.
\<close>

theorem tick_moves_one_step:
  assumes "phase_valid s" "wanted_pos s \<noteq> current_pos s"
  shows "(\<exists>s'. stepper_timer_isr s = Some s' \<and> moved_one_step s s') \<and>
         (\<exists>s'. StepperTick s = Some s' \<and> moved_one_step s s')"
proof
  let ?s = "s\<lparr>TEIE1_on := False, T1I := 0\<rparr>"
  have "phase_valid ?s" "wanted_pos ?s \<noteq> current_pos ?s"
    using assms by simp_all
  then obtain s1 where s1: "isr_branch ?s = Some s1" "moved_one_step ?s s1"
    using isr_branch_moves by blast
  from s1(2) have m: "moved_one_step s s1" by (simp only: moved_one_step_regs)
  show "\<exists>s'. stepper_timer_isr s = Some s' \<and> moved_one_step s s'"
    using s1(1) m moved_one_step_rearm [OF m] by (simp add: stepper_timer_isr_def)
next
  show "\<exists>s'. StepperTick s = Some s' \<and> moved_one_step s s'"
    using isr_branch_moves [OF assms] by (auto simp add: StepperTick_eq)
qed

theorem tick_moves_one_step_witness:
  "phase_valid bound_for_3 \<and> wanted_pos bound_for_3 \<noteq> current_pos bound_for_3 \<and>
   (\<exists>s'. stepper_timer_isr bound_for_3 = Some s' \<and> moved_one_step bound_for_3 s') \<and>
   (\<exists>s'. StepperTick bound_for_3 = Some s' \<and> moved_one_step bound_for_3 s')"
proof -
  have v: "phase_valid bound_for_3" by code_simp
  have w: "wanted_pos bound_for_3 \<noteq> current_pos bound_for_3" by code_simp
  show ?thesis using v w tick_moves_one_step [OF v w] by simp
qed

subsection \<open>The invariant of the sonoff revision\<close>

lemma StepperInit_inv: "driver_inv (StepperInit pn s0)"
  by (simp add: driver_inv_def phase_valid_def builtin_scheme_def idle_arrived_def
      StepperInit_def Let_def scheme_lengths)

lemma StepperCmndCalibrate_inv:
  "driver_inv s \<Longrightarrow> driver_inv (snd (StepperCmndCalibrate s))"
  by (simp add: driver_inv_def phase_valid_def idle_arrived_def StepperCmndCalibrate_def
      apply_phase_def)

lemma scheme_switch_inv:
  assumes "scheme_switch c s = Some s2" "idle_arrived s"
  shows "driver_inv (s2\<lparr>current_phase := 0\<rparr>)"
  using assms
  by (auto simp add: scheme_switch_def driver_inv_def phase_valid_def builtin_scheme_def
      idle_arrived_def scheme_lengths split: if_splits)

lemma driver_inv_tick_us [simp]: "driver_inv (s\<lparr>tick_us := t\<rparr>) = driver_inv s"
  by (simp add: driver_inv_def phase_valid_def idle_arrived_def)

lemma idle_arrived_tick_us [simp]: "idle_arrived (s\<lparr>tick_us := t\<rparr>) = idle_arrived s"
  by (simp add: idle_arrived_def)

lemma speed_scheme_arg_inv:
  assumes "driver_inv s1"
  shows "driver_inv (snd (speed_scheme_arg rest1 s1))"
proof -
  have i: "idle_arrived s1" using assms by (simp add: driver_inv_def)
  show ?thesis
    using assms scheme_switch_inv [OF _ i]
    by (auto simp add: speed_scheme_arg_def Let_def split: option.splits prod.splits)
qed

lemma StepperCmndSpeed_inv:
  assumes "driver_inv s"
  shows "driver_inv (snd (StepperCmndSpeed data s))"
  using assms
  by (auto simp add: StepperCmndSpeed_def Let_def speed_scheme_arg_inv
      split: option.splits prod.splits)

text \<open>The argument loop of \<^verbatim>\<open>StepperCmndStep\<close> writes \<^verbatim>\<open>lock_when_done\<close> only.\<close>

lemma step_args_Inl: "step_args gsn b s = Inl s1 \<Longrightarrow> s1 = s"
  by (auto simp add: step_args_def Let_def split: option.splits prod.splits if_splits)

lemma step_args_Inr:
  "step_args gsn b s = Inr (r, a, s1) \<Longrightarrow> s1 = s \<or> (\<exists>l. s1 = s\<lparr>lock_when_done := l\<rparr>)"
  by (auto simp add: step_args_def Let_def split: option.splits prod.splits if_splits)

lemma StepperCmndStep_Error:
  "fst (StepperCmndStep gsn data s) = Error \<Longrightarrow>
     snd (StepperCmndStep gsn data s) = s\<lparr>lock_when_done := False\<rparr>"
  by (auto simp add: StepperCmndStep_def Let_def dest: step_args_Inl split: sum.splits prod.splits)

lemma StepperCmndStep_Done:
  assumes "fst (StepperCmndStep gsn data s) = Done"
  shows "\<exists>r a l. step_args gsn (cstring data) (s\<lparr>lock_when_done := False\<rparr>) =
                   Inr (r, a, s\<lparr>lock_when_done := l\<rparr>) \<and>
           snd (StepperCmndStep gsn data s) =
             s\<lparr>lock_when_done := l, wanted_pos := (if a then r else current_pos s + r),
               idle := False, T1L := (if idle s then 1 else T1L s), TEIE1_on := True\<rparr>"
proof (cases "step_args gsn (cstring data) (s\<lparr>lock_when_done := False\<rparr>)")
  case (Inl s1)
  then show ?thesis using assms by (simp add: StepperCmndStep_def)
next
  case (Inr t)
  obtain r a s1 where t: "t = (r, a, s1)" by (cases t)
  from step_args_Inr [OF Inr [unfolded t]]
  obtain l where l: "s1 = s\<lparr>lock_when_done := l\<rparr>"
    by (metis stepper.surjective stepper.update_convs(11))
  show ?thesis
    using Inr t l by (auto simp add: StepperCmndStep_def Let_def)
qed

subsection \<open>The invariant through the interrupt routine\<close>

lemma StepperCmndStep_inv:
  assumes "driver_inv s"
  shows "driver_inv (snd (StepperCmndStep gsn data s))"
proof (cases "fst (StepperCmndStep gsn data s)")
  case Done
  from StepperCmndStep_Done [OF Done] show ?thesis
    using assms by (auto simp add: driver_inv_def phase_valid_def idle_arrived_def)
next
  case Error
  from StepperCmndStep_Error [OF Error] show ?thesis
    using assms by (simp add: driver_inv_def phase_valid_def idle_arrived_def)
qed

lemma driver_inv_regs: "driver_inv (s\<lparr>TEIE1_on := b, T1I := v\<rparr>) = driver_inv s"
  by (simp add: driver_inv_def phase_valid_def idle_arrived_def)

lemma driver_inv_rearm: "driver_inv (s\<lparr>T1L := l, TEIE1_on := b\<rparr>) = driver_inv s"
  by (simp add: driver_inv_def phase_valid_def idle_arrived_def)

lemma moved_one_step_inv:
  assumes "driver_inv s" "wanted_pos s \<noteq> current_pos s" "moved_one_step s s'"
  shows "driver_inv s'"
proof -
  have v: "phase_valid s" and b: "builtin_scheme (current_scheme s)" and i: "\<not> idle s"
    using assms(1,2) by (auto simp add: driver_inv_def idle_arrived_def)
  have f: "current_scheme s' = current_scheme s" "max_phase s' = max_phase s" "idle s' = idle s"
    using assms(3) by (simp_all add: moved_one_step_def)
  have "sint (current_phase s') = (sint (current_phase s) + 1) mod sint (max_phase s) \<or>
        sint (current_phase s') = (sint (current_phase s) - 1) mod sint (max_phase s)"
    using assms(3) by (auto simp add: moved_one_step_def split: if_splits)
  then have "0 \<le> sint (current_phase s') \<and> sint (current_phase s') < int (length (current_scheme s))"
    using index_range [OF v] by auto
  then have "phase_valid s'"
    using v f by (simp add: phase_valid_def)
  then show ?thesis
    using b i f by (simp add: driver_inv_def idle_arrived_def)
qed

lemma isr_branch_inv:
  assumes "driver_inv s"
  shows "\<exists>s'. isr_branch s = Some s' \<and> driver_inv s'"
proof (cases "wanted_pos s = current_pos s")
  case True
  have v: "phase_valid s" using assms by (simp add: driver_inv_def)
  show ?thesis
    using assms True
    by (simp add: isr_branch_arrived [OF v True] driver_inv_def phase_valid_def
        idle_arrived_def apply_phase_def)
next
  case False
  have v: "phase_valid s" using assms by (simp add: driver_inv_def)
  from isr_branch_moves [OF v False] obtain s' where
    "isr_branch s = Some s'" "moved_one_step s s'" by blast
  then show ?thesis
    using moved_one_step_inv [OF assms False] by blast
qed

lemma stepper_timer_isr_inv:
  assumes "driver_inv s"
  shows "\<exists>s'. stepper_timer_isr s = Some s' \<and> driver_inv s'"
proof -
  have "driver_inv (s\<lparr>TEIE1_on := False, T1I := 0\<rparr>)"
    using assms by (simp only: driver_inv_regs)
  from isr_branch_inv [OF this] obtain s1 where
    s1: "isr_branch (s\<lparr>TEIE1_on := False, T1I := 0\<rparr>) = Some s1" "driver_inv s1" by blast
  then show ?thesis
    by (simp add: stepper_timer_isr_def driver_inv_rearm)
qed

subsection \<open>The statements of a command, executed without interruption\<close>

lemma execute_Nil [simp]: "execute [] s = s"
  by (simp add: execute_def)

lemma execute_Cons [simp]: "execute (f # fs) s = execute fs (f s)"
  by (simp add: execute_def)

lemma execute_append [simp]: "execute (fs @ gs) s = execute gs (execute fs s)"
  by (simp add: execute_def)

lemma execute_StepperSet: "execute (StepperSet_statements st) s = apply_phase st s"
  by (simp add: StepperSet_statements_def apply_phase_def StepperSet_def write_pin_def)

lemma execute_StepperCmndCalibrate:
  "execute StepperCmndCalibrate_statements s = snd (StepperCmndCalibrate s)"
  by (simp add: StepperCmndCalibrate_statements_def StepperCmndCalibrate_def execute_StepperSet)

lemma execute_scheme_switch:
  "map_option (\<lambda>fs. execute fs s) (scheme_switch_statements c) = scheme_switch c s"
  by (simp add: scheme_switch_statements_def scheme_switch_def)

lemma execute_speed_scheme_arg:
  "execute (speed_scheme_arg_statements rest1) s = snd (speed_scheme_arg rest1 s)"
proof (cases "strtok_r rest1 (CHR '','')")
  case None
  then show ?thesis by (simp add: speed_scheme_arg_statements_def speed_scheme_arg_def)
next
  case (Some p)
  obtain tok2 rest2 where p: "p = (tok2, rest2)" by (cases p)
  define c :: "32 word" where "c = word_of_int (fst (strtol (dropWhile isspace tok2)))"
  show ?thesis
    using execute_scheme_switch [of s c]
    by (cases "scheme_switch_statements c")
      (auto simp add: speed_scheme_arg_statements_def speed_scheme_arg_def Some p Let_def c_def
        split: option.splits)
qed

lemma execute_StepperCmndSpeed:
  "execute (StepperCmndSpeed_statements data) s = snd (StepperCmndSpeed data s)"
proof (cases "strtok_r (cstring data) (CHR '','')")
  case None
  then show ?thesis by (simp add: StepperCmndSpeed_statements_def StepperCmndSpeed_def)
next
  case (Some p)
  obtain tok1 rest1 where p: "p = (tok1, rest1)" by (cases p)
  show ?thesis
    by (simp add: StepperCmndSpeed_statements_def StepperCmndSpeed_def Some p Let_def
        execute_speed_scheme_arg)
qed

lemma execute_StepperCmndStep:
  "execute (StepperCmndStep_statements gsn data s) s = snd (StepperCmndStep gsn data s)"
proof (cases "step_args gsn (cstring data) (s\<lparr>lock_when_done := False\<rparr>)")
  case (Inl s1)
  from step_args_Inl [OF Inl] show ?thesis
    using Inl by (simp add: StepperCmndStep_statements_def StepperCmndStep_def)
next
  case (Inr t)
  obtain r a s1 where t: "t = (r, a, s1)" by (cases t)
  from step_args_Inr [OF Inr [unfolded t]]
  obtain l where l: "s1 = s\<lparr>lock_when_done := l\<rparr>"
    by (metis stepper.surjective stepper.update_convs(11))
  show ?thesis
    using Inr t l by (simp add: StepperCmndStep_statements_def StepperCmndStep_def Let_def)
qed

lemma execute_Xdrv23:
  "driver_inv s \<Longrightarrow> driver_inv (execute (Xdrv23 gsn c s) s)"
  by (cases c)
    (simp_all add: Xdrv23_def execute_StepperCmndCalibrate execute_StepperCmndSpeed
      execute_StepperCmndStep StepperCmndCalibrate_inv StepperCmndSpeed_inv StepperCmndStep_inv)


subsection \<open>Runs in which the interrupt fires between commands only\<close>

lemma step_inv:
  assumes "driver_inv (execute (fst c) (snd c))" "e \<noteq> Tick \<or> fst c = []"
  shows "\<exists>c1. step gsn e c = Some c1 \<and> driver_inv (execute (fst c1) (snd c1))"
proof (cases e)
  case (Command cmd)
  show ?thesis
  proof (cases "fst c = []")
    case True
    then have "driver_inv (snd c)" using assms(1) by simp
    from execute_Xdrv23 [OF this] show ?thesis
      using True Command by (simp add: step_def)
  next
    case False
    then show ?thesis using assms(1) Command by (simp add: step_def)
  qed
next
  case Statement
  show ?thesis
    using assms(1) Statement by (cases "fst c") (simp_all add: step_def)
next
  case Tick
  then have n: "fst c = []" using assms(2) by simp
  then have i: "driver_inv (snd c)" using assms(1) by simp
  from stepper_timer_isr_inv [OF i] obtain s' where
    "stepper_timer_isr (snd c) = Some s'" "driver_inv s'" by blast
  then show ?thesis
    using Tick n i by (cases c) (auto simp add: step_def)
qed

lemma run_inv:
  assumes "driver_inv (execute (fst c) (snd c))" "between_commands gsn es c"
  shows "\<exists>c1. run gsn es c = Some c1 \<and> driver_inv (execute (fst c1) (snd c1))"
  using assms
proof (induction es arbitrary: c)
  case Nil
  then show ?case by simp
next
  case (Cons e es)
  have "e \<noteq> Tick \<or> fst c = []" using Cons.prems(2) by simp
  from step_inv [OF Cons.prems(1) this] obtain c1 where
    c1: "step gsn e c = Some c1" "driver_inv (execute (fst c1) (snd c1))" by blast
  have "between_commands gsn es c1" using Cons.prems(2) c1(1) by simp
  from Cons.IH [OF c1(2) this] show ?case using c1(1) by simp
qed

text \<open>
  After start-up, a run in which the interrupt never fires while a command is in
  progress does not read outside the phase table, and whenever it ends with no command
  in progress, the phase index is in range and an idle driver is at its target.
\<close>

lemma run_between_commands:
  assumes "between_commands gsn es ([], StepperInit pn s0)"
  shows "\<exists>fs s. run gsn es ([], StepperInit pn s0) = Some (fs, s) \<and>
           (fs = [] \<longrightarrow> phase_valid s \<and> builtin_scheme (current_scheme s) \<and>
                       (idle s \<longrightarrow> wanted_pos s = current_pos s))"
proof -
  have "driver_inv (execute (fst ([], StepperInit pn s0)) (snd ([], StepperInit pn s0)))"
    by (simp add: StepperInit_inv)
  from run_inv [OF this assms] obtain c1 where
    c1: "run gsn es ([], StepperInit pn s0) = Some c1" "driver_inv (execute (fst c1) (snd c1))"
    by blast
  obtain fs s where p: "c1 = (fs, s)" by (cases c1)
  show ?thesis
    using c1 p by (auto simp add: driver_inv_def idle_arrived_def)
qed

subsection \<open>The interrupt inside a command\<close>

text \<open>
  C1.  The phase index does not stay in \<open>[0, max_phase)\<close> through every run of commands
  and ticks.  The run \<open>Speed_in_progress\<close> after start-up on four pins: a move down to -3 is
  under way at position -2 and phase index 6 of the half-step table, the timer
  interrupt is enabled, and \<^verbatim>\<open>Speed  ,0\<close> has executed \<^verbatim>\<open>current_scheme = rotating_wave\<close>
  and \<^verbatim>\<open>max_phase = 4\<close>, with \<^verbatim>\<open>current_phase = 0\<close> still to come: the phase index 6 is
  not below \<^verbatim>\<open>max_phase\<close>.  A tick at this point decrements the index to 5 and reads
  \<^verbatim>\<open>rotating_wave[5]\<close>, outside the table of four phases.  Had the tick come after the
  command's last statement, it would have read phase 3.
\<close>

theorem tick_inside_Speed:
  "map_option (\<lambda>c. (length (fst c), current_scheme (snd c) = rotating_wave, max_phase (snd c),
                     current_phase (snd c), current_pos (snd c), wanted_pos (snd c),
                     enabled (snd c), TEIE1_on (snd c), phase_valid (snd c)))
     (run no_state_number Speed_in_progress ([], started)) =
     Some (1, True, 4, 6, - 2, - 3, True, True, False) \<and>
   phase_at rotating_wave 5 = None \<and>
   run no_state_number (Speed_in_progress @ [Tick]) ([], started) = None \<and>
   map_option (\<lambda>c. (length (fst c), current_phase (snd c), phase_valid (snd c)))
     (run no_state_number (Speed_in_progress @ [Statement, Tick]) ([], started)) =
     Some (0, 3, True)"
proof -
  have a: "map_option (\<lambda>c. (length (fst c), current_scheme (snd c) = rotating_wave,
                            max_phase (snd c), current_phase (snd c), current_pos (snd c),
                            wanted_pos (snd c), enabled (snd c), TEIE1_on (snd c),
                            phase_valid (snd c)))
             (run no_state_number Speed_in_progress ([], started)) =
           Some (1, True, 4, 6, - 2, - 3, True, True, False)"
    by code_simp
  have b: "phase_at rotating_wave 5 = None" by code_simp
  have "map_option (\<lambda>c. current_phase (snd c))
          (run no_state_number (Speed_in_progress @ [Tick]) ([], started)) = None"
    by code_simp
  then have c: "run no_state_number (Speed_in_progress @ [Tick]) ([], started) = None"
    by simp
  have d: "map_option (\<lambda>c. (length (fst c), current_phase (snd c), phase_valid (snd c)))
             (run no_state_number (Speed_in_progress @ [Statement, Tick]) ([], started)) =
           Some (0, 3, True)"
    by code_simp
  show ?thesis
    using a b c d by (intro conjI)
qed

text \<open>
  C10.  Not every state reached from start-up by commands and ticks has
  \<^verbatim>\<open>wanted_pos = current_pos\<close> when \<^verbatim>\<open>idle\<close> is true.  The run \<open>Calibrate_interrupted\<close> after
  start-up on four pins: with a move to 3
  under way and the timer interrupt enabled, Calibrate executes \<^verbatim>\<open>current_pos = 0\<close>; the
  interrupt fires and steps to position 1; Calibrate executes \<^verbatim>\<open>wanted_pos = 0\<close>,
  \<^verbatim>\<open>idle = true\<close> and \<^verbatim>\<open>StepperSet(all_off)\<close> and returns.  The driver is idle with
  \<^verbatim>\<open>wanted_pos = 0\<close> and \<^verbatim>\<open>current_pos = 1\<close>.
\<close>

theorem tick_inside_Calibrate:
  "map_option (\<lambda>c. (length (fst c), enabled (snd c), TEIE1_on (snd c), idle (snd c),
                     wanted_pos (snd c), current_pos (snd c)))
     (run no_state_number (take 9 Calibrate_interrupted) ([], started)) =
     Some (10, True, True, False, 3, 0) \<and>
   map_option (\<lambda>c. (length (fst c), idle (snd c), wanted_pos (snd c), current_pos (snd c),
                     idle_arrived (snd c)))
     (run no_state_number Calibrate_interrupted ([], started)) =
     Some (0, True, 0, 1, False)"
  by code_simp

subsection \<open>Order of the pin writes\<close>

text \<open>
  C8.  With enable pins, applying a phase appends to the writes, in this order: a write
  of 0 to each enable line whose target is 0; the four direction lines with the values
  of the target phase; a write of 1 to each enable line whose target is 1.  Every write
  made before the direction lines is a write of 0.
\<close>

theorem StepperSet_write_order:
  assumes "have_enable_pins s"
  shows "\<exists>falls rises.
           gpio (apply_phase st s) =
             gpio s @ map (\<lambda>p. (p, False)) falls @
             [(stepper_A_pos_pin (pins s), A_pos st), (stepper_A_neg_pin (pins s), A_neg st),
              (stepper_B_pos_pin (pins s), B_pos st), (stepper_B_neg_pin (pins s), B_neg st)] @
             map (\<lambda>p. (p, True)) rises \<and>
           falls = (if A_ena st then [] else [stepper_A_ena_pin (pins s)]) @
                   (if B_ena st then [] else [stepper_B_ena_pin (pins s)]) \<and>
           rises = (if A_ena st then [stepper_A_ena_pin (pins s)] else []) @
                   (if B_ena st then [stepper_B_ena_pin (pins s)] else []) \<and>
           list_all (\<lambda>w. snd w = False)
             (take (length falls) (StepperSet (have_enable_pins s) (pins s) st))"
  using assms by (simp add: apply_phase_def StepperSet_def)

text \<open>
  Phase 1 of the scheme with inhibition (\<^verbatim>\<open>{1,0,0,1, 1,0}\<close>) on six pins: enable B (pin
  5) falls first, enable A (pin 4) rises last.
\<close>

theorem StepperSet_write_order_witness:
  "have_enable_pins (StepperInit pins6 power_on) \<and>
   StepperSet True pins6 (half_step_inhibit ! 1) =
     [(5, False), (12, True), (13, False), (14, False), (15, True), (4, True)] \<and>
   (\<exists>falls rises.
      gpio (apply_phase (half_step_inhibit ! 1) (StepperInit pins6 power_on)) =
        gpio (StepperInit pins6 power_on) @ map (\<lambda>p. (p, False)) falls @
        [(12, True), (13, False), (14, False), (15, True)] @ map (\<lambda>p. (p, True)) rises \<and>
      falls = [5] \<and> rises = [4])"
proof -
  let ?s = "StepperInit pins6 power_on :: stepper32"
  let ?st = "half_step_inhibit ! 1"
  have h: "have_enable_pins ?s"
    by (simp add: StepperInit_def pins6_def Let_def)
  have p: "pins ?s = pins6"
    by (simp add: StepperInit_def Let_def)
  have w: "StepperSet True pins6 ?st =
             [(5, False), (12, True), (13, False), (14, False), (15, True), (4, True)]"
    by (simp add: StepperSet_def pins6_def half_step_inhibit_def phase_def)
  have e: "A_ena ?st" "\<not> B_ena ?st" "A_pos ?st" "\<not> A_neg ?st" "\<not> B_pos ?st" "B_neg ?st"
    by (simp_all add: half_step_inhibit_def phase_def)
  have q: "stepper_A_ena_pin pins6 = 4" "stepper_B_ena_pin pins6 = 5"
    "stepper_A_pos_pin pins6 = 12" "stepper_A_neg_pin pins6 = 13"
    "stepper_B_pos_pin pins6 = 14" "stepper_B_neg_pin pins6 = 15"
    by (simp_all add: pins6_def)
  from StepperSet_write_order [OF h, of ?st] obtain falls rises where
    g: "gpio (apply_phase ?st ?s) =
          gpio ?s @ map (\<lambda>p. (p, False)) falls @
          [(stepper_A_pos_pin (pins ?s), A_pos ?st), (stepper_A_neg_pin (pins ?s), A_neg ?st),
           (stepper_B_pos_pin (pins ?s), B_pos ?st), (stepper_B_neg_pin (pins ?s), B_neg ?st)] @
          map (\<lambda>p. (p, True)) rises"
    and f: "falls = (if A_ena ?st then [] else [stepper_A_ena_pin (pins ?s)]) @
                    (if B_ena ?st then [] else [stepper_B_ena_pin (pins ?s)])"
    and r: "rises = (if A_ena ?st then [stepper_A_ena_pin (pins ?s)] else []) @
                    (if B_ena ?st then [stepper_B_ena_pin (pins ?s)] else [])"
    by blast
  have f': "falls = [5]" using f by (simp only: p e q if_True if_False append_Nil)
  have r': "rises = [4]" using r by (simp only: p e q if_True if_False append_Nil2)
  have g': "gpio (apply_phase ?st ?s) =
          gpio ?s @ map (\<lambda>p. (p, False)) falls @
          [(12, True), (13, False), (14, False), (15, True)] @ map (\<lambda>p. (p, True)) rises"
    using g e by (simp only: p q simp_thms)
  show ?thesis using h w f' r' g' by blast
qed

subsection \<open>The tick on arrival\<close>

lemma restored_saved:
  fixes pos :: "16 word" and f :: "nat \<Rightarrow> 16 word"
  shows "restored_pos (f(0 := ucast (ucast ((scast pos :: 32 word) AND 0xff) :: 8 word),
                        1 := ucast (ucast (signed_drop_bit 8 (scast pos :: 32 word) AND 0xff) :: 8 word)))
         = pos"
proof -
  let ?lo = "ucast (ucast (ucast ((scast pos :: 32 word) AND 0xff) :: 8 word) :: 16 word) :: 32 word"
  let ?hi = "ucast (ucast (ucast (signed_drop_bit 8 (scast pos :: 32 word) AND 0xff) :: 8 word) :: 16 word) :: 32 word"
  have m: "(0xff :: 32 word) = mask 8" by (simp add: mask_eq_exp_minus_1)
  have d: "?lo AND push_bit 8 ?hi = 0"
    by (rule bit_eqI) (auto simp add: bit_simps m)
  have "?lo + push_bit 8 ?hi = ?lo OR push_bit 8 ?hi"
    using d by (rule disjunctive_add_eq_or)
  moreover have "ucast (?lo OR push_bit 8 ?hi) = pos"
    apply (rule bit_eqI)
    apply (auto simp add: bit_simps m)
    done
  ultimately show ?thesis
    by (simp add: restored_pos_def)
qed

lemma stepper_timer_isr_arrived:
  assumes "wanted_pos s = current_pos s"
    and "(if lock_when_done s then phase_at (current_scheme s) (current_phase s)
          else Some all_off) = Some ph"
  shows "stepper_timer_isr s =
           Some (s\<lparr>TEIE1_on := False, T1I := 0,
                   gpio := gpio s @ StepperSet (have_enable_pins s) (pins s) ph,
                   idle := True\<rparr>)"
  using assms
  by (auto simp add: stepper_timer_isr_def isr_branch_def word_sless_alt apply_phase_def
      split: if_splits)

lemma stepper_timer_isr_p0_arrived:
  assumes "wanted_pos t = current_pos t"
    and "(if lock_when_done t then phase_at (current_scheme t) (current_phase t)
          else Some all_off) = Some ph"
  shows "stepper_timer_isr_p0 t =
           Some ((SaveCurrentPos
                    (t\<lparr>TEIE1_on := False, T1I := 0,
                       gpio := gpio t @ StepperSet (have_enable_pins t) (pins t) ph\<rparr>))
                 \<lparr>idle := True\<rparr>)"
  using assms
  by (auto simp add: stepper_timer_isr_p0_def isr_branch_p0_def word_sless_alt apply_phase_def
      SaveCurrentPos_def split: if_splits)

lemma SaveCurrentPos_restored:
  "restored_pos (Settings_pwm_value (SaveCurrentPos t)) = current_pos t"
  using restored_saved [of "Settings_pwm_value t" "current_pos t"]
  by (simp add: SaveCurrentPos_def)

lemma SaveCurrentPos_frame:
  "current_pos (SaveCurrentPos t) = current_pos t"
  "wanted_pos (SaveCurrentPos t) = wanted_pos t"
  "current_phase (SaveCurrentPos t) = current_phase t"
  "gpio (SaveCurrentPos t) = gpio t"
  by (simp_all add: SaveCurrentPos_def)

text \<open>
  C3, as amended.  On a tick with \<^verbatim>\<open>wanted_pos = current_pos\<close>, \<open>ph\<close> being the phase at
  \<^verbatim>\<open>current_phase\<close> when \<^verbatim>\<open>lock_when_done\<close> is set and \<^verbatim>\<open>all_off\<close> otherwise: the interrupt
  routine of sonoff/xdrv_23_stepper.ino applies \<open>ph\<close>, sets \<^verbatim>\<open>idle\<close> and changes nothing
  else but the two timer registers (it stores nothing); the routine of part_000 applies
  \<open>ph\<close>, sets \<^verbatim>\<open>idle\<close>, leaves position, target and phase index, and saves the position:
  the bytes in \<^verbatim>\<open>Settings.pwm_value[0..1]\<close> restore to \<^verbatim>\<open>current_pos\<close>.
\<close>

theorem arrival_tick:
  assumes "wanted_pos s = current_pos s"
    and "(if lock_when_done s then phase_at (current_scheme s) (current_phase s)
          else Some all_off) = Some ph"
    and "wanted_pos t = current_pos t"
    and "(if lock_when_done t then phase_at (current_scheme t) (current_phase t)
          else Some all_off) = Some ph0"
  shows "stepper_timer_isr s =
           Some (s\<lparr>TEIE1_on := False, T1I := 0,
                   gpio := gpio s @ StepperSet (have_enable_pins s) (pins s) ph,
                   idle := True\<rparr>) \<and>
         (\<exists>t'. stepper_timer_isr_p0 t = Some t' \<and>
               gpio t' = gpio t @ StepperSet (have_enable_pins t) (pins t) ph0 \<and>
               idle t' \<and> restored_pos (Settings_pwm_value t') = current_pos t \<and>
               current_pos t' = current_pos t \<and> wanted_pos t' = wanted_pos t \<and>
               current_phase t' = current_phase t)"
  using stepper_timer_isr_arrived [OF assms(1,2)] stepper_timer_isr_p0_arrived [OF assms(3,4)]
  by (simp add: SaveCurrentPos_restored SaveCurrentPos_frame)

text \<open>
  Sonoff arrived at position 1, unlocked: the tick writes the all-off phase.  Part_000
  under way to 5 with the lock requested, its target then set to its position -2: the
  tick writes phase 0 of the half-step table and stores -2.
\<close>

theorem arrival_tick_witness:
  "wanted_pos arrived_at_1 = current_pos arrived_at_1 \<and>
   wanted_pos (moving_p0\<lparr>wanted_pos := - 2\<rparr>) = current_pos (moving_p0\<lparr>wanted_pos := - 2\<rparr>) \<and>
   map_option gpio (stepper_timer_isr arrived_at_1) =
     Some (gpio arrived_at_1 @ [(12, False), (13, False), (14, False), (15, False)]) \<and>
   (\<exists>t'. stepper_timer_isr_p0 (moving_p0\<lparr>wanted_pos := - 2\<rparr>) = Some t' \<and>
         gpio t' = gpio moving_p0 @ [(12, True), (13, False), (14, False), (15, True)] \<and>
         idle t' \<and> restored_pos (Settings_pwm_value t') = - 2)"
proof -
  let ?t = "moving_p0\<lparr>wanted_pos := - 2\<rparr>"
  have a: "wanted_pos arrived_at_1 = current_pos arrived_at_1" by code_simp
  have b: "(if lock_when_done arrived_at_1
            then phase_at (current_scheme arrived_at_1) (current_phase arrived_at_1)
            else Some all_off) = Some all_off" by code_simp
  have c: "wanted_pos ?t = current_pos ?t" by code_simp
  have d: "(if lock_when_done ?t then phase_at (current_scheme ?t) (current_phase ?t)
            else Some all_off) = Some (half_step ! 0)" by code_simp
  have e: "StepperSet (have_enable_pins arrived_at_1) (pins arrived_at_1) all_off =
             [(12, False), (13, False), (14, False), (15, False)]" by code_simp
  have f: "StepperSet (have_enable_pins moving_p0) (pins moving_p0) (half_step ! 0) =
             [(12, True), (13, False), (14, False), (15, True)]" by code_simp
  have g: "current_pos ?t = - 2" by code_simp
  show ?thesis
    using a c arrival_tick [OF a b c d] by (auto simp add: e f g)
qed

lemma stepper_timer_isr_Settings:
  "stepper_timer_isr s = Some s' \<Longrightarrow>
     Settings_pwm_value s' = Settings_pwm_value s \<and>
     Settings_pwm_frequency s' = Settings_pwm_frequency s"
  by (auto simp add: stepper_timer_isr_def isr_branch_def apply_phase_def Let_def
      split: option.splits if_splits)

text \<open>
  In sonoff/xdrv_23_stepper.ino the tick on arrival at position 1 leaves the settings
  as they were: what they hold restores to position 0.
\<close>

theorem arrival_tick_counterexample:
  "\<exists>s'. stepper_timer_isr arrived_at_1 = Some s' \<and> idle s' \<and>
        wanted_pos arrived_at_1 = current_pos arrived_at_1 \<and> current_pos s' = 1 \<and>
        Settings_pwm_value s' = Settings_pwm_value arrived_at_1 \<and>
        restored_pos (Settings_pwm_value s') = 0"
proof -
  have "map_option (\<lambda>s'. (idle s', current_pos s', restored_pos (Settings_pwm_value s')))
          (stepper_timer_isr arrived_at_1) = Some (True, 1, 0)"
    by code_simp
  moreover have "wanted_pos arrived_at_1 = current_pos arrived_at_1" by code_simp
  ultimately show ?thesis
    using stepper_timer_isr_Settings [of arrived_at_1] by auto
qed

subsection \<open>Commands that fail\<close>

lemma speed_scheme_arg_Error:
  "fst (speed_scheme_arg rest1 s1) = Error \<Longrightarrow> snd (speed_scheme_arg rest1 s1) = s1"
  by (auto simp add: speed_scheme_arg_def Let_def split: option.splits prod.splits if_splits)

lemma StepperCmndSpeed_Error:
  assumes "fst (StepperCmndSpeed data s) = Error"
  shows "\<exists>t. snd (StepperCmndSpeed data s) = s\<lparr>tick_us := t\<rparr>"
proof (cases "strtok_r (cstring data) (CHR '','')")
  case None
  then show ?thesis using assms by (simp add: StepperCmndSpeed_def)
next
  case (Some p)
  obtain tok1 rest1 where p: "p = (tok1, rest1)" by (cases p)
  define str where "str = dropWhile isspace tok1"
  define s1 where
    "s1 = (if str \<noteq> [] then s\<lparr>tick_us := word_of_int (fst (strtol str))\<rparr> else s)"
  have u: "StepperCmndSpeed data s =
             (if str \<noteq> [] \<and> \<not> snd (strtol str) then (Error, s1) else speed_scheme_arg rest1 s1)"
    by (simp add: StepperCmndSpeed_def Some p Let_def str_def s1_def)
  have t: "\<exists>t. s1 = s\<lparr>tick_us := t\<rparr>"
  proof (cases "str = []")
    case True
    then have "s1 = s\<lparr>tick_us := tick_us s\<rparr>" by (simp add: s1_def)
    then show ?thesis ..
  next
    case False
    then have "s1 = s\<lparr>tick_us := word_of_int (fst (strtol str))\<rparr>" by (simp add: s1_def)
    then show ?thesis ..
  qed
  have "snd (StepperCmndSpeed data s) = s1"
    using assms speed_scheme_arg_Error [of rest1 s1] by (simp add: u split: if_splits)
  then show ?thesis using t by simp
qed

text \<open>
  C4, as amended.  A Speed command that answers with an error leaves every global but
  \<^verbatim>\<open>tick_us\<close> as it was; a Step command that answers with an error leaves every global
  as it was but \<^verbatim>\<open>lock_when_done\<close>, which it has reset; Calibrate never answers with an
  error.  So position, target, phase index, scheme and \<^verbatim>\<open>idle\<close> survive a failed
  command.
\<close>

theorem failed_command_frame:
  "(fst (StepperCmndSpeed data s) = Error \<longrightarrow>
      (\<exists>t. snd (StepperCmndSpeed data s) = s\<lparr>tick_us := t\<rparr>)) \<and>
   (fst (StepperCmndStep gsn data' s) = Error \<longrightarrow>
      snd (StepperCmndStep gsn data' s) = s\<lparr>lock_when_done := False\<rparr>) \<and>
   fst (StepperCmndCalibrate s) = Done"
  using StepperCmndSpeed_Error [of data s] StepperCmndStep_Error [of gsn data' s]
  by (simp add: StepperCmndCalibrate_def)

text \<open>
  A scheme code out of range after a tick period, and a position that is no number,
  while a locked move is under way.
\<close>

theorem failed_command_frame_witness:
  "fst (StepperCmndSpeed ''100,9'' locked_move) = Error \<and>
   fst (StepperCmndStep no_state_number ''abc'' locked_move) = Error \<and>
   (\<exists>t. snd (StepperCmndSpeed ''100,9'' locked_move) = locked_move\<lparr>tick_us := t\<rparr>) \<and>
   snd (StepperCmndStep no_state_number ''abc'' locked_move) =
     locked_move\<lparr>lock_when_done := False\<rparr>"
proof -
  have a: "fst (StepperCmndSpeed ''100,9'' locked_move) = Error" by code_simp
  have b: "fst (StepperCmndStep no_state_number ''abc'' locked_move) = Error" by code_simp
  show ?thesis
    using a b failed_command_frame [of "''100,9''" locked_move no_state_number "''abc''"]
    by simp
qed

text \<open>
  The failing commands of the example change the state: the tick period goes from 2000
  to 100 (to 0 when the period itself is no number), and the requested lock is lost.
\<close>

theorem failed_command_counterexample:
  "fst (StepperCmndSpeed ''100,9'' locked_move) = Error \<and>
   tick_us locked_move = 2000 \<and>
   tick_us (snd (StepperCmndSpeed ''100,9'' locked_move)) = 100 \<and>
   fst (StepperCmndSpeed ''abc'' locked_move) = Error \<and>
   tick_us (snd (StepperCmndSpeed ''abc'' locked_move)) = 0 \<and>
   fst (StepperCmndStep no_state_number ''abc'' locked_move) = Error \<and>
   lock_when_done locked_move \<and>
   \<not> lock_when_done (snd (StepperCmndStep no_state_number ''abc'' locked_move))"
  by code_simp

subsection \<open>Selecting a scheme\<close>

lemma scheme_tables_differ: "half_step \<noteq> half_step_inhibit"
  by (simp add: half_step_def half_step_inhibit_def phase_def)

lemma control_schemes_3:
  "control_schemes ! 3 = (half_step_inhibit, 8)" "SCHEMES_MAX = 4"
  by (simp_all add: control_schemes_def SCHEMES_MAX_def scheme_lengths)

lemma strtol_Nil: "strtol [] = (0, False)"
  by (simp add: strtol_def)

text \<open>
  The arguments of a Speed command that selects scheme 3: a first token that is blank
  or a number (a period \<open>v\<close>), and a second token that \<^verbatim>\<open>strtol\<close> reads as \<open>c\<close>.
\<close>

lemma StepperCmndSpeed_scheme:
  assumes "strtok_r (cstring data) (CHR '','') = Some (tok1, rest1)"
    and "dropWhile isspace tok1 = [] \<or> snd (strtol (dropWhile isspace tok1))"
    and "strtok_r rest1 (CHR '','') = Some (tok2, rest2)"
    and "strtol (dropWhile isspace tok2) = (c, True)"
  shows "StepperCmndSpeed data s =
           (let s1 = (if dropWhile isspace tok1 \<noteq> []
                      then s\<lparr>tick_us := word_of_int (fst (strtol (dropWhile isspace tok1)))\<rparr>
                      else s)
            in case scheme_switch (word_of_int c) s1 of
                 None \<Rightarrow> (Error, s1)
               | Some s2 \<Rightarrow> (Done, s2\<lparr>current_phase := 0\<rparr>))"
proof -
  have n: "dropWhile isspace tok2 \<noteq> []"
  proof
    assume "dropWhile isspace tok2 = []"
    then have "strtol (dropWhile isspace tok2) = (0, False)" by (simp only: strtol_Nil)
    with assms(4) show False by simp
  qed
  show ?thesis
    using assms n by (auto simp add: StepperCmndSpeed_def speed_scheme_arg_def Let_def)
qed

lemma StepperCmndSpeed_p0_scheme:
  assumes "strtok_r (cstring data) (CHR '','') = Some (tok1, rest1)"
    and "dropWhile isspace tok1 = [] \<or> snd (strtol (dropWhile isspace tok1))"
    and "strtok_r rest1 (CHR '','') = Some (tok2, rest2)"
    and "strtol (dropWhile isspace tok2) = (c, True)"
  shows "StepperCmndSpeed_p0 data t =
           (let req_tick_us = (word_of_int (fst (strtol (dropWhile isspace tok1))) :: 16 word);
                t1 = (if dropWhile isspace tok1 \<noteq> [] \<and> req_tick_us \<noteq> tick_us t
                      then t\<lparr>tick_us := req_tick_us, Settings_pwm_frequency := req_tick_us\<rparr>
                      else t)
            in case SelectScheme (word_of_int c) t1 of
                 (False, t2) \<Rightarrow> (Error, t2)
               | (True, t2) \<Rightarrow> (Done, t2))"
proof -
  have n: "dropWhile isspace tok2 \<noteq> []"
  proof
    assume "dropWhile isspace tok2 = []"
    then have "strtol (dropWhile isspace tok2) = (0, False)" by (simp only: strtol_Nil)
    with assms(4) show False by simp
  qed
  show ?thesis
    using assms n by (auto simp add: StepperCmndSpeed_p0_def speed_scheme_arg_p0_def Let_def)
qed

lemma SelectScheme_3:
  assumes "current_scheme_index t \<noteq> 3"
  shows "SelectScheme 3 t =
           (True, t\<lparr>TEIE1_on := False, current_scheme_index := 3, wanted_pos := current_pos t,
                    current_phase := 0, current_scheme := half_step_inhibit, max_phase := 8,
                    Settings_pwm_value := (Settings_pwm_value t)(5 := 3)\<rparr>)"
proof -
  have "(ucast (current_scheme_index t) :: 32 word) \<noteq> 3"
  proof
    assume "(ucast (current_scheme_index t) :: 32 word) = 3"
    then have "(ucast (ucast (current_scheme_index t) :: 32 word) :: 8 word) = ucast (3 :: 32 word)"
      by simp
    then have "current_scheme_index t = 3"
      by (simp add: ucast_up_ucast_id is_up)
    with assms show False by simp
  qed
  then show ?thesis
    by (simp add: SelectScheme_def control_schemes_3 Let_def word_sless_alt)
qed

text \<open>
  A Speed command whose second argument reads as 3 (its first being blank or a number),
  without enable pins.  Sonoff/xdrv_23_stepper.ino answers Done and makes \<^verbatim>\<open>half_step\<close>
  (8 phases) the active scheme, not \<^verbatim>\<open>half_step_inhibit\<close>.
\<close>

lemma StepperCmndSpeed_scheme_3:
  assumes "strtok_r (cstring data) (CHR '','') = Some (tok1, rest1)"
    and "dropWhile isspace tok1 = [] \<or> snd (strtol (dropWhile isspace tok1))"
    and "strtok_r rest1 (CHR '','') = Some (tok2, rest2)"
    and "strtol (dropWhile isspace tok2) = (3, True)"
    and "\<not> have_enable_pins s"
  shows "fst (StepperCmndSpeed data s) = Done \<and>
         current_scheme (snd (StepperCmndSpeed data s)) = half_step \<and>
         max_phase (snd (StepperCmndSpeed data s)) = 8 \<and>
         current_scheme (snd (StepperCmndSpeed data s)) \<noteq> half_step_inhibit"
proof -
  have "fst (StepperCmndSpeed data s) = Done \<and>
        current_scheme (snd (StepperCmndSpeed data s)) = half_step \<and>
        max_phase (snd (StepperCmndSpeed data s)) = 8"
    using assms(5)
    by (simp add: StepperCmndSpeed_scheme [OF assms(1-4)] scheme_switch_def Let_def)
  then show ?thesis using scheme_tables_differ by simp
qed

text \<open>
  Part_000, when scheme 3 is not the current one already, answers Done and makes
  \<^verbatim>\<open>half_step_inhibit\<close> the active scheme, with enable pins or without.
\<close>

lemma StepperCmndSpeed_p0_scheme_3:
  assumes "strtok_r (cstring data) (CHR '','') = Some (tok1, rest1)"
    and "dropWhile isspace tok1 = [] \<or> snd (strtol (dropWhile isspace tok1))"
    and "strtok_r rest1 (CHR '','') = Some (tok2, rest2)"
    and "strtol (dropWhile isspace tok2) = (3, True)"
    and "current_scheme_index t \<noteq> 3"
  shows "fst (StepperCmndSpeed_p0 data t) = Done \<and>
         current_scheme (snd (StepperCmndSpeed_p0 data t)) = half_step_inhibit \<and>
         max_phase (snd (StepperCmndSpeed_p0 data t)) = 8"
proof -
  define t1 where
    "t1 = (if dropWhile isspace tok1 \<noteq> [] \<and>
              (word_of_int (fst (strtol (dropWhile isspace tok1))) :: 16 word) \<noteq> tick_us t
           then t\<lparr>tick_us := word_of_int (fst (strtol (dropWhile isspace tok1))),
                  Settings_pwm_frequency := word_of_int (fst (strtol (dropWhile isspace tok1)))\<rparr>
           else t)"
  have i: "current_scheme_index t1 \<noteq> 3" using assms(5) by (simp add: t1_def)
  have u: "StepperCmndSpeed_p0 data t =
             (case SelectScheme 3 t1 of (False, t2) \<Rightarrow> (Error, t2) | (True, t2) \<Rightarrow> (Done, t2))"
    using StepperCmndSpeed_p0_scheme [OF assms(1-4), of t] by (simp add: Let_def t1_def)
  show ?thesis
    by (simp add: u SelectScheme_3 [OF i])
qed

text \<open>
  C5.  Without enable pins, the command \<^verbatim>\<open>Speed  ,3\<close> (blank period, scheme 3) after
  start-up with the half-step scheme: sonoff/xdrv_23_stepper.ino answers Done and keeps
  the half-step table, as the claim says; part_000 answers Done and makes the table with
  inhibition the active scheme, whose phase 1 drives the direction lines otherwise than
  phase 1 of the half-step table.
\<close>

theorem scheme_3_without_enable_pins:
  "\<not> have_enable_pins started \<and> current_scheme started = half_step \<and>
   fst (StepperCmndSpeed '' ,3'' started) = Done \<and>
   current_scheme (snd (StepperCmndSpeed '' ,3'' started)) = half_step \<and>
   \<not> have_enable_pins started_p0 \<and> current_scheme started_p0 = half_step \<and>
   fst (StepperCmndSpeed_p0 '' ,3'' started_p0) = Done \<and>
   current_scheme (snd (StepperCmndSpeed_p0 '' ,3'' started_p0)) = half_step_inhibit \<and>
   current_scheme (snd (StepperCmndSpeed_p0 '' ,3'' started_p0)) \<noteq> half_step \<and>
   StepperSet False pins4 (half_step_inhibit ! 1) \<noteq> StepperSet False pins4 (half_step ! 1)"
proof -
  have a: "strtok_r (cstring '' ,3'') (CHR '','') = Some ('' '', ''3'')" by code_simp
  have b: "dropWhile isspace '' '' = [] \<or> snd (strtol (dropWhile isspace '' ''))" by code_simp
  have c: "strtok_r ''3'' (CHR '','') = Some (''3'', [])" by code_simp
  have d: "strtol (dropWhile isspace ''3'') = (3, True)" by code_simp
  have e: "\<not> have_enable_pins started" by code_simp
  have f: "\<not> have_enable_pins started_p0" by code_simp
  have g: "current_scheme_index started_p0 \<noteq> 3" by code_simp
  have h: "current_scheme started = half_step" "current_scheme started_p0 = half_step"
    by code_simp+
  have k: "StepperSet False pins4 (half_step_inhibit ! 1) \<noteq>
           StepperSet False pins4 (half_step ! 1)" by code_simp
  show ?thesis
    using e f h k StepperCmndSpeed_scheme_3 [OF a b c d e]
      StepperCmndSpeed_p0_scheme_3 [OF a b c d g] scheme_tables_differ
    by simp
qed

subsection \<open>What a Speed command changes\<close>

lemma scheme_switch_change:
  "scheme_switch c s1 = Some s2 \<Longrightarrow>
     \<exists>sc mp. s2 = s1\<lparr>current_scheme := sc, max_phase := mp\<rparr>"
  by (auto simp add: scheme_switch_def split: if_splits)

lemma speed_scheme_arg_change:
  "snd (speed_scheme_arg rest1 s1) = s1 \<or>
   (\<exists>sc mp. snd (speed_scheme_arg rest1 s1) =
      s1\<lparr>current_scheme := sc, max_phase := mp, current_phase := 0\<rparr>)"
  by (auto simp add: speed_scheme_arg_def Let_def dest!: scheme_switch_change
      split: option.splits prod.splits)

lemma StepperCmndSpeed_change:
  "(\<exists>tk. snd (StepperCmndSpeed data s) = s\<lparr>tick_us := tk\<rparr>) \<or>
   (\<exists>tk sc mp. snd (StepperCmndSpeed data s) =
      s\<lparr>tick_us := tk, current_scheme := sc, max_phase := mp, current_phase := 0\<rparr>)"
proof (cases "strtok_r (cstring data) (CHR '','')")
  case None
  have "s = s\<lparr>tick_us := tick_us s\<rparr>" by simp
  then have "\<exists>tk. s = s\<lparr>tick_us := tk\<rparr>" ..
  then show ?thesis using None by (simp add: StepperCmndSpeed_def)
next
  case (Some p)
  obtain tok1 rest1 where p: "p = (tok1, rest1)" by (cases p)
  define str where "str = dropWhile isspace tok1"
  define s1 where
    "s1 = (if str \<noteq> [] then s\<lparr>tick_us := word_of_int (fst (strtol str))\<rparr> else s)"
  have u: "StepperCmndSpeed data s =
             (if str \<noteq> [] \<and> \<not> snd (strtol str) then (Error, s1) else speed_scheme_arg rest1 s1)"
    by (simp add: StepperCmndSpeed_def Some p Let_def str_def s1_def)
  have t: "\<exists>t. s1 = s\<lparr>tick_us := t\<rparr>"
  proof (cases "str = []")
    case True
    then have "s1 = s\<lparr>tick_us := tick_us s\<rparr>" by (simp add: s1_def)
    then show ?thesis ..
  next
    case False
    then have "s1 = s\<lparr>tick_us := word_of_int (fst (strtol str))\<rparr>" by (simp add: s1_def)
    then show ?thesis ..
  qed
  then obtain tk where tk: "s1 = s\<lparr>tick_us := tk\<rparr>" ..
  have "snd (StepperCmndSpeed data s) = s1 \<or>
        (\<exists>sc mp. snd (StepperCmndSpeed data s) =
           s1\<lparr>current_scheme := sc, max_phase := mp, current_phase := 0\<rparr>)"
    using speed_scheme_arg_change [of rest1 s1] by (simp add: u)
  then show ?thesis
    unfolding tk by blast
qed

lemma SelectScheme_change:
  "snd (SelectScheme n t) = t \<or>
   (\<exists>ix sc mp. snd (SelectScheme n t) =
      t\<lparr>TEIE1_on := False, current_scheme_index := ix, wanted_pos := current_pos t,
        current_phase := 0, current_scheme := sc, max_phase := mp,
        Settings_pwm_value := (Settings_pwm_value t)(5 := ucast ix)\<rparr>)"
  by (auto simp add: SelectScheme_def Let_def)

lemma speed_scheme_arg_p0_change:
  "snd (speed_scheme_arg_p0 rest1 t1) = t1 \<or>
   (\<exists>ix sc mp. snd (speed_scheme_arg_p0 rest1 t1) =
      t1\<lparr>TEIE1_on := False, current_scheme_index := ix, wanted_pos := current_pos t1,
         current_phase := 0, current_scheme := sc, max_phase := mp,
         Settings_pwm_value := (Settings_pwm_value t1)(5 := ucast ix)\<rparr>)"
proof (cases "strtok_r rest1 (CHR '','')")
  case None
  then show ?thesis by (simp add: speed_scheme_arg_p0_def)
next
  case (Some p)
  obtain tok2 rest2 where p: "p = (tok2, rest2)" by (cases p)
  define n :: "32 word" where "n = word_of_int (fst (strtol (dropWhile isspace tok2)))"
  have "snd (speed_scheme_arg_p0 rest1 t1) = t1 \<or>
        snd (speed_scheme_arg_p0 rest1 t1) = snd (SelectScheme n t1)"
    by (auto simp add: speed_scheme_arg_p0_def Some p Let_def n_def split: prod.splits bool.splits)
  then show ?thesis
  proof
    assume "snd (speed_scheme_arg_p0 rest1 t1) = t1"
    then show ?thesis ..
  next
    assume e: "snd (speed_scheme_arg_p0 rest1 t1) = snd (SelectScheme n t1)"
    show ?thesis using SelectScheme_change [of n t1] unfolding e .
  qed
qed

lemma StepperCmndSpeed_p0_change:
  assumes "current_scheme (snd (StepperCmndSpeed_p0 data t)) \<noteq> current_scheme t"
  shows "\<exists>tk fq ix sc mp. snd (StepperCmndSpeed_p0 data t) =
           t\<lparr>tick_us := tk, Settings_pwm_frequency := fq, TEIE1_on := False,
             current_scheme_index := ix, wanted_pos := current_pos t, current_phase := 0,
             current_scheme := sc, max_phase := mp,
             Settings_pwm_value := (Settings_pwm_value t)(5 := ucast ix)\<rparr>"
proof (cases "strtok_r (cstring data) (CHR '','')")
  case None
  then show ?thesis using assms by (simp add: StepperCmndSpeed_p0_def)
next
  case (Some p)
  obtain tok1 rest1 where p: "p = (tok1, rest1)" by (cases p)
  define str where "str = dropWhile isspace tok1"
  define rq :: "16 word" where "rq = word_of_int (fst (strtol str))"
  define t1 where
    "t1 = (if str \<noteq> [] \<and> rq \<noteq> tick_us t
           then t\<lparr>tick_us := rq, Settings_pwm_frequency := rq\<rparr> else t)"
  have u: "StepperCmndSpeed_p0 data t =
             (if str \<noteq> [] \<and> \<not> snd (strtol str) then (Error, t) else speed_scheme_arg_p0 rest1 t1)"
    by (simp add: StepperCmndSpeed_p0_def Some p Let_def str_def t1_def rq_def)
  have t: "\<exists>tk fq. t1 = t\<lparr>tick_us := tk, Settings_pwm_frequency := fq\<rparr>"
  proof (cases "str \<noteq> [] \<and> rq \<noteq> tick_us t")
    case True
    then have "t1 = t\<lparr>tick_us := rq, Settings_pwm_frequency := rq\<rparr>"
      unfolding t1_def by (rule if_P)
    then show ?thesis by blast
  next
    case False
    then have "t1 = t" unfolding t1_def by (rule if_not_P)
    then have "t1 = t\<lparr>tick_us := tick_us t, Settings_pwm_frequency := Settings_pwm_frequency t\<rparr>"
      by simp
    then show ?thesis by blast
  qed
  then obtain tk fq where tk: "t1 = t\<lparr>tick_us := tk, Settings_pwm_frequency := fq\<rparr>" by blast
  have c: "current_scheme t1 = current_scheme t" by (simp add: tk)
  have e: "snd (StepperCmndSpeed_p0 data t) = snd (speed_scheme_arg_p0 rest1 t1)"
  proof (cases "str \<noteq> [] \<and> \<not> snd (strtol str)")
    case True
    then have "snd (StepperCmndSpeed_p0 data t) = t" by (simp add: u)
    with assms show ?thesis by simp
  next
    case False
    then have "(if str \<noteq> [] \<and> \<not> snd (strtol str) then (Error, t)
                else speed_scheme_arg_p0 rest1 t1) = speed_scheme_arg_p0 rest1 t1"
      by (rule if_not_P)
    then show ?thesis by (simp only: u)
  qed
  then have "snd (speed_scheme_arg_p0 rest1 t1) \<noteq> t1"
    using assms c by auto
  then obtain ix sc mp where
    "snd (speed_scheme_arg_p0 rest1 t1) =
       t1\<lparr>TEIE1_on := False, current_scheme_index := ix, wanted_pos := current_pos t1,
          current_phase := 0, current_scheme := sc, max_phase := mp,
          Settings_pwm_value := (Settings_pwm_value t1)(5 := ucast ix)\<rparr>"
    using speed_scheme_arg_p0_change [of rest1 t1] by blast
  then have "snd (StepperCmndSpeed_p0 data t) =
       t\<lparr>tick_us := tk, Settings_pwm_frequency := fq, TEIE1_on := False,
          current_scheme_index := ix, wanted_pos := current_pos t,
          current_phase := 0, current_scheme := sc, max_phase := mp,
          Settings_pwm_value := (Settings_pwm_value t)(5 := ucast ix)\<rparr>"
    by (simp add: e tk)
  then show ?thesis by blast
qed

text \<open>
  C9, as amended.  A Speed command after which the active scheme is another one has set
  \<^verbatim>\<open>current_phase\<close> to 0 and left \<^verbatim>\<open>current_pos\<close>, \<^verbatim>\<open>idle\<close> and \<^verbatim>\<open>lock_when_done\<close>; in
  sonoff/xdrv_23_stepper.ino it has changed nothing but tick period, scheme, its length
  and the phase index, so \<^verbatim>\<open>wanted_pos\<close> stays too; in part_000 it has also set
  \<^verbatim>\<open>wanted_pos\<close> to \<^verbatim>\<open>current_pos\<close> and stored the scheme index (and a new tick period) in
  the settings.  Nothing is said of bit \<^verbatim>\<open>TEIE1\<close> after the command of part_000.
\<close>

theorem scheme_change_frame:
  assumes "current_scheme (snd (StepperCmndSpeed data s)) \<noteq> current_scheme s"
    and "current_scheme (snd (StepperCmndSpeed_p0 data' t)) \<noteq> current_scheme t"
  shows "current_phase (snd (StepperCmndSpeed data s)) = 0 \<and>
         current_pos (snd (StepperCmndSpeed data s)) = current_pos s \<and>
         wanted_pos (snd (StepperCmndSpeed data s)) = wanted_pos s \<and>
         (\<exists>tk sc mp. snd (StepperCmndSpeed data s) =
            s\<lparr>tick_us := tk, current_scheme := sc, max_phase := mp, current_phase := 0\<rparr>) \<and>
         current_phase (snd (StepperCmndSpeed_p0 data' t)) = 0 \<and>
         current_pos (snd (StepperCmndSpeed_p0 data' t)) = current_pos t \<and>
         wanted_pos (snd (StepperCmndSpeed_p0 data' t)) = current_pos t \<and>
         (\<exists>tk fq te ix sc mp. snd (StepperCmndSpeed_p0 data' t) =
            t\<lparr>tick_us := tk, Settings_pwm_frequency := fq, TEIE1_on := te,
              current_scheme_index := ix, wanted_pos := current_pos t, current_phase := 0,
              current_scheme := sc, max_phase := mp,
              Settings_pwm_value := (Settings_pwm_value t)(5 := ucast ix)\<rparr>)"
proof -
  have "\<not> (\<exists>tk. snd (StepperCmndSpeed data s) = s\<lparr>tick_us := tk\<rparr>)"
    using assms(1) by auto
  then obtain tk sc mp where a: "snd (StepperCmndSpeed data s) =
      s\<lparr>tick_us := tk, current_scheme := sc, max_phase := mp, current_phase := 0\<rparr>"
    using StepperCmndSpeed_change [of data s] by blast
  from StepperCmndSpeed_p0_change [OF assms(2)] obtain tk' fq te ix sc' mp' where
    b: "snd (StepperCmndSpeed_p0 data' t) =
          t\<lparr>tick_us := tk', Settings_pwm_frequency := fq, TEIE1_on := te,
            current_scheme_index := ix, wanted_pos := current_pos t, current_phase := 0,
            current_scheme := sc', max_phase := mp',
            Settings_pwm_value := (Settings_pwm_value t)(5 := ucast ix)\<rparr>"
    by blast
  have a': "\<exists>tk sc mp. snd (StepperCmndSpeed data s) =
            s\<lparr>tick_us := tk, current_scheme := sc, max_phase := mp, current_phase := 0\<rparr>"
    using a by blast
  have b': "\<exists>tk fq te ix sc mp. snd (StepperCmndSpeed_p0 data' t) =
            t\<lparr>tick_us := tk, Settings_pwm_frequency := fq, TEIE1_on := te,
              current_scheme_index := ix, wanted_pos := current_pos t, current_phase := 0,
              current_scheme := sc, max_phase := mp,
              Settings_pwm_value := (Settings_pwm_value t)(5 := ucast ix)\<rparr>"
    using b by blast
  show ?thesis
    using a' b' by (simp add: a b)
qed

text \<open>
  \<^verbatim>\<open>Speed  ,1\<close> while under way to 5 (the sonoff revision at 0, part_000 at -2): both
  take the full-step table and phase 0; sonoff keeps its target 5, part_000 stops at -2.
\<close>

theorem scheme_change_frame_witness:
  "current_scheme (snd (StepperCmndSpeed '' ,1'' locked_move)) \<noteq> current_scheme locked_move \<and>
   current_scheme (snd (StepperCmndSpeed_p0 '' ,1'' moving_p0)) \<noteq> current_scheme moving_p0 \<and>
   current_phase (snd (StepperCmndSpeed '' ,1'' locked_move)) = 0 \<and>
   wanted_pos (snd (StepperCmndSpeed '' ,1'' locked_move)) = 5 \<and>
   current_phase (snd (StepperCmndSpeed_p0 '' ,1'' moving_p0)) = 0 \<and>
   wanted_pos (snd (StepperCmndSpeed_p0 '' ,1'' moving_p0)) = - 2"
proof -
  have a: "current_scheme (snd (StepperCmndSpeed '' ,1'' locked_move)) \<noteq>
           current_scheme locked_move" by code_simp
  have b: "current_scheme (snd (StepperCmndSpeed_p0 '' ,1'' moving_p0)) \<noteq>
           current_scheme moving_p0" by code_simp
  have c: "wanted_pos locked_move = 5" "current_pos moving_p0 = - 2" by code_simp+
  show ?thesis
    using a b c scheme_change_frame [OF a b] by simp
qed

text \<open>
  In part_000 the change of scheme in mid-move replaces the target 5 by the position -2.
\<close>

theorem scheme_change_counterexample:
  "fst (StepperCmndSpeed_p0 '' ,1'' moving_p0) = Done \<and>
   current_scheme moving_p0 = half_step \<and>
   current_scheme (snd (StepperCmndSpeed_p0 '' ,1'' moving_p0)) = full_step \<and>
   wanted_pos moving_p0 = 5 \<and>
   wanted_pos (snd (StepperCmndSpeed_p0 '' ,1'' moving_p0)) = - 2 \<and>
   current_pos (snd (StepperCmndSpeed_p0 '' ,1'' moving_p0)) = - 2"
  by code_simp

subsection \<open>The tick period and the timer's load register\<close>

lemma reload_p0:
  fixes tk :: "16 word"
  shows "unat ((ESP8266_CLOCK div 1000000) * (ucast tk :: 32 word)) = 80 * unat tk"
    and "unat ((ESP8266_CLOCK div 1000000) * (ucast tk :: 32 word)) < 2 ^ 23"
proof -
  have c: "ESP8266_CLOCK div 1000000 = (80 :: 32 word)"
    by (simp add: ESP8266_CLOCK_def)
  have b: "unat tk < 65536" using unsigned_less [of tk, where 'a = nat] by simp
  have u: "unat (ucast tk :: 32 word) = unat tk"
    by (simp add: unsigned_ucast_eq take_bit_nat_eq_self_iff) (use b in simp)
  have "unat ((80 :: 32 word) * ucast tk) = (80 * unat tk) mod 2 ^ 32"
    by (simp add: unat_word_ariths u)
  also have "\<dots> = 80 * unat tk" using b by simp
  finally have e: "unat ((ESP8266_CLOCK div 1000000) * (ucast tk :: 32 word)) = 80 * unat tk"
    by (simp only: c)
  then show "unat ((ESP8266_CLOCK div 1000000) * (ucast tk :: 32 word)) = 80 * unat tk" .
  show "unat ((ESP8266_CLOCK div 1000000) * (ucast tk :: 32 word)) < 2 ^ 23"
    using b by (simp only: e) simp
qed

lemma stepper_timer_isr_p0_rearm:
  assumes "stepper_timer_isr_p0 t = Some t'" "\<not> idle t'"
  shows "T1L t' = (ESP8266_CLOCK div 1000000) * ucast (tick_us t)"
proof -
  obtain t1 where t1: "isr_branch_p0 (t\<lparr>TEIE1_on := False, T1I := 0\<rparr>) = Some t1"
    using assms(1) by (auto simp add: stepper_timer_isr_p0_def split: option.splits)
  have k: "tick_us t1 = tick_us t"
    using t1
    by (auto simp add: isr_branch_p0_def apply_phase_def SaveCurrentPos_def Let_def
        split: if_splits)
  show ?thesis
    using assms t1 k by (auto simp add: stepper_timer_isr_p0_def split: if_splits)
qed

lemma StepperCmndSpeed_p0_period:
  assumes "strtok_r (cstring data) (CHR '','') = Some (tok1, rest1)"
    and "strtol (dropWhile isspace tok1) = (v, True)"
    and "strtok_r rest1 (CHR '','') = None"
  shows "fst (StepperCmndSpeed_p0 data t) = Done"
    and "tick_us (snd (StepperCmndSpeed_p0 data t)) = word_of_int v"
proof -
  have n: "dropWhile isspace tok1 \<noteq> []"
  proof
    assume "dropWhile isspace tok1 = []"
    then have "strtol (dropWhile isspace tok1) = (0, False)" by (simp only: strtol_Nil)
    with assms(2) show False by simp
  qed
  show "fst (StepperCmndSpeed_p0 data t) = Done"
    using assms n by (simp add: StepperCmndSpeed_p0_def speed_scheme_arg_p0_def Let_def)
  show "tick_us (snd (StepperCmndSpeed_p0 data t)) = word_of_int v"
    using assms n by (auto simp add: StepperCmndSpeed_p0_def speed_scheme_arg_p0_def Let_def)
qed

text \<open>
  C6, as amended.  In part_000, where \<^verbatim>\<open>tick_us\<close> has 16 bits: whatever Speed command came
  before, the value the interrupt routine loads into \<^verbatim>\<open>T1L\<close> when it re-arms is
  \<open>80 * tick_us\<close>, without overflow, and below \<open>2 ^ 23\<close>.  A period is not rejected for
  its size: a Speed command with a numeric period \<open>v\<close> and nothing else answers Done and
  leaves \<open>v\<close> reduced to 16 bits in \<^verbatim>\<open>tick_us\<close>.
\<close>

theorem tick_period_fits_timer:
  "(stepper_timer_isr_p0 (snd (StepperCmndSpeed_p0 data t)) = Some t' \<and> \<not> idle t' \<longrightarrow>
      unat (T1L t') = 80 * unat (tick_us (snd (StepperCmndSpeed_p0 data t))) \<and>
      unat (T1L t') < 2 ^ 23) \<and>
   (strtok_r (cstring data) (CHR '','') = Some (tok1, rest1) \<and>
    strtol (dropWhile isspace tok1) = (v, True) \<and> strtok_r rest1 (CHR '','') = None \<longrightarrow>
      fst (StepperCmndSpeed_p0 data t) = Done \<and>
      tick_us (snd (StepperCmndSpeed_p0 data t)) = word_of_int v)"
proof (intro conjI impI)
  assume a: "stepper_timer_isr_p0 (snd (StepperCmndSpeed_p0 data t)) = Some t' \<and> \<not> idle t'"
  then have l: "T1L t' =
      (ESP8266_CLOCK div 1000000) * ucast (tick_us (snd (StepperCmndSpeed_p0 data t)))"
    by (intro stepper_timer_isr_p0_rearm) simp_all
  show "unat (T1L t') = 80 * unat (tick_us (snd (StepperCmndSpeed_p0 data t)))"
    unfolding l by (rule reload_p0(1))
  show "unat (T1L t') < 2 ^ 23"
    unfolding l by (rule reload_p0(2))
next
  assume a: "strtok_r (cstring data) (CHR '','') = Some (tok1, rest1) \<and>
    strtol (dropWhile isspace tok1) = (v, True) \<and> strtok_r rest1 (CHR '','') = None"
  then show "fst (StepperCmndSpeed_p0 data t) = Done"
    by (intro StepperCmndSpeed_p0_period(1) [of data tok1 rest1 v]) simp_all
  from a show "tick_us (snd (StepperCmndSpeed_p0 data t)) = word_of_int v"
    by (intro StepperCmndSpeed_p0_period(2) [of data tok1 rest1 v]) simp_all
qed

text \<open>
  \<^verbatim>\<open>Speed 200000\<close> in part_000 under way to 5: Done, the period kept is
  \<open>200000 mod 65536 = 3392\<close>, and the next tick loads \<open>80 * 3392\<close>.
\<close>

theorem tick_period_fits_timer_witness:
  "fst (StepperCmndSpeed_p0 ''200000'' moving_p0) = Done \<and>
   tick_us (snd (StepperCmndSpeed_p0 ''200000'' moving_p0)) = 3392 \<and>
   (\<exists>t'. stepper_timer_isr_p0 (snd (StepperCmndSpeed_p0 ''200000'' moving_p0)) = Some t' \<and>
         \<not> idle t' \<and> unat (T1L t') = 271360 \<and> unat (T1L t') < 2 ^ 23)"
proof -
  let ?t = "snd (StepperCmndSpeed_p0 ''200000'' moving_p0)"
  have a: "strtok_r (cstring ''200000'') (CHR '','') = Some (''200000'', [])" by code_simp
  have b: "strtol (dropWhile isspace ''200000'') = (200000, True)" by code_simp
  have c: "strtok_r [] (CHR '','') = None" by code_simp
  have d: "map_option idle (stepper_timer_isr_p0 ?t) = Some False" by code_simp
  then obtain t' where t': "stepper_timer_isr_p0 ?t = Some t'" "\<not> idle t'" by auto
  have e: "(word_of_int 200000 :: 16 word) = 3392" by simp
  have f: "fst (StepperCmndSpeed_p0 ''200000'' moving_p0) = Done"
    "tick_us ?t = word_of_int 200000"
    "unat (T1L t') = 80 * unat (tick_us ?t)" "unat (T1L t') < 2 ^ 23"
    using a b c t' tick_period_fits_timer [of "''200000''" moving_p0 t' "''200000''" "[]" 200000]
    by blast+
  have g: "tick_us ?t = 3392" using f(2) e by simp
  have h: "unat (T1L t') = 271360" using f(3) by (simp add: g)
  show ?thesis
    using f(1) g h f(4) t' by blast
qed

text \<open>
  \<^verbatim>\<open>Speed 200000\<close> is answered with Done in both revisions.  In
  sonoff/xdrv_23_stepper.ino the period is kept and the next tick loads 16000000, which
  has more than 23 bits; in part_000 the period kept is 3392.
\<close>

theorem tick_period_counterexample:
  "fst (StepperCmndSpeed ''200000'' locked_move) = Done \<and>
   tick_us (snd (StepperCmndSpeed ''200000'' locked_move)) = 200000 \<and>
   map_option (\<lambda>s. (idle s, T1L s))
     (stepper_timer_isr (snd (StepperCmndSpeed ''200000'' locked_move))) =
     Some (False, 16000000) \<and>
   (2 :: int) ^ 23 < uint (16000000 :: 32 word) \<and>
   fst (StepperCmndSpeed_p0 ''200000'' moving_p0) = Done \<and>
   tick_us (snd (StepperCmndSpeed_p0 ''200000'' moving_p0)) = 3392"
proof -
  have "fst (StepperCmndSpeed ''200000'' locked_move) = Done" by code_simp
  moreover have "tick_us (snd (StepperCmndSpeed ''200000'' locked_move)) = 200000" by code_simp
  moreover have "map_option (\<lambda>s. (idle s, T1L s))
     (stepper_timer_isr (snd (StepperCmndSpeed ''200000'' locked_move))) =
     Some (False, 16000000)" by code_simp
  moreover have "(2 :: int) ^ 23 < uint (16000000 :: 32 word)" by simp
  moreover have "fst (StepperCmndSpeed_p0 ''200000'' moving_p0) = Done" by code_simp
  moreover have "tick_us (snd (StepperCmndSpeed_p0 ''200000'' moving_p0)) = 3392" by code_simp
  ultimately show ?thesis by blast
qed

subsection \<open>The Step command\<close>






lemma step_args_p1_Inl: "step_args_p1 gsn b s = Some (Inl s1) \<Longrightarrow> s1 = s"
  by (auto simp add: step_args_p1_def Let_def split: option.splits prod.splits if_splits)







end
